theory Spec2Isabelle
  imports Main "HOL-Library.Word" "HOL-Library.Sublist"
begin

text \<open>
  A model of the Avito messenger monitor: the service \<open>PuppeteerService\<close> in its
  version with credential login (\<open>src/unnamed/part_001\<close>; line numbers below refer
  to that file), the ledger \<open>MessagesService\<close> and the start handler of
  \<open>AppController\<close>. The browser and the pages it shows are the environment: every
  function takes, as a "view", what the page answers during the call.
\<close>

section \<open>Strings of the JavaScript runtime\<close>

text \<open>
  A JavaScript string is a sequence of UTF-16 code units. \<open>length\<close>, \<open>substring\<close> and
  \<open>includes\<close> all count code units, so a string is a list of 16-bit words. ASCII
  literals of the source are written through \<open>ascii\<close>; the Russian literals of the
  source are given by their code units.
\<close>

type_synonym jsstring = "16 word list"

definition ascii :: "string \<Rightarrow> jsstring" where
  "ascii s = map (\<lambda>c. of_nat (of_char c)) s"

text \<open>\<open>String.prototype.includes\<close>: the argument occurs as a contiguous run.\<close>

fun js_includes :: "jsstring \<Rightarrow> jsstring \<Rightarrow> bool" where
  "js_includes [] sub = (sub = [])"
| "js_includes (x # xs) sub = (prefix sub (x # xs) \<or> js_includes xs sub)"

text \<open>
  The code units that \<open>trim()\<close> strips and that \<open>\s\<close> matches: ECMAScript WhiteSpace
  and LineTerminator.
\<close>

definition isSpace :: "16 word \<Rightarrow> bool" where
  "isSpace c \<longleftrightarrow>
     c \<in> {0x0009, 0x000A, 0x000B, 0x000C, 0x000D, 0x0020, 0x00A0, 0x1680, 0x2000, 0x2001,
          0x2002, 0x2003, 0x2004, 0x2005, 0x2006, 0x2007, 0x2008, 0x2009, 0x200A, 0x2028,
          0x2029, 0x202F, 0x205F, 0x3000, 0xFEFF}"

definition isDigit :: "16 word \<Rightarrow> bool" where
  "isDigit c \<longleftrightarrow> 0x30 \<le> c \<and> c \<le> 0x39"

definition trim :: "jsstring \<Rightarrow> jsstring" where
  "trim s = rev (dropWhile isSpace (rev (dropWhile isSpace s)))"

text \<open>A string is truthy in a condition exactly when it is not empty.\<close>

definition truthy :: "jsstring \<Rightarrow> bool" where
  "truthy s \<longleftrightarrow> s \<noteq> []"

text \<open>\<open>a || b\<close> on values that are a string or \<open>undefined\<close>.\<close>

definition orElse :: "jsstring option \<Rightarrow> jsstring option \<Rightarrow> jsstring option" where
  "orElse a b = (case a of None \<Rightarrow> b | Some x \<Rightarrow> if truthy x then Some x else b)"

text \<open>The rendering of a non-negative integer inside a template literal.\<close>

fun dec :: "nat \<Rightarrow> jsstring" where
  "dec n = (if n < 10 then [0x30 + of_nat n] else dec (n div 10) @ [0x30 + of_nat (n mod 10)])"

declare dec.simps [simp del]

text \<open>\<open>text.split('\n').pop()\<close>: what follows the last line feed.\<close>

definition lastLine :: "jsstring \<Rightarrow> jsstring" where
  "lastLine s = rev (takeWhile (\<lambda>c. c \<noteq> 0x000A) (rev s))"

text \<open>
  \<open>targetNames\<close> is the array literal passed to both \<open>page.evaluate\<close> calls: the full
  name (given name, space, family name; fifteen Cyrillic code units) and the given name
  alone. \<open>defaultSender\<close> is the fallback sender of the heuristic passes (again the
  given name).
\<close>

definition targetNames :: "jsstring list" where
  "targetNames =
    [[0x0420, 0x0443, 0x0448, 0x0430, 0x043D, 0x0020, 0x041D, 0x0430, 0x0442, 0x0444,
      0x0443, 0x043B, 0x043B, 0x0438, 0x043D],
     [0x0420, 0x0443, 0x0448, 0x0430, 0x043D]]"

definition defaultSender :: jsstring where
  "defaultSender = [0x0420, 0x0443, 0x0448, 0x0430, 0x043D]"

section \<open>Phone numbers: \<open>extractPhoneNumber\<close>\<close>

text \<open>
  The four regular expressions of \<open>phonePatterns\<close> are sequences of single-character
  atoms: a literal, \<open>\d\<close>, \<open>\s?\<close> and \<open>[\s-]?\<close>. An optional atom is greedy and
  backtracks, as the regular expression engine does.
\<close>

datatype atom = Lit "16 word" | Digit | OptSpace | OptSpaceDash

fun matchHere :: "atom list \<Rightarrow> jsstring \<Rightarrow> jsstring option" where
  "matchHere [] s = Some []"
| "matchHere (Lit c # r) [] = None"
| "matchHere (Lit c # r) (x # xs) =
     (if x = c then map_option ((#) x) (matchHere r xs) else None)"
| "matchHere (Digit # r) [] = None"
| "matchHere (Digit # r) (x # xs) =
     (if isDigit x then map_option ((#) x) (matchHere r xs) else None)"
| "matchHere (OptSpace # r) [] = matchHere r []"
| "matchHere (OptSpace # r) (x # xs) =
     (if isSpace x
      then (case matchHere r xs of Some m \<Rightarrow> Some (x # m) | None \<Rightarrow> matchHere r (x # xs))
      else matchHere r (x # xs))"
| "matchHere (OptSpaceDash # r) [] = matchHere r []"
| "matchHere (OptSpaceDash # r) (x # xs) =
     (if isSpace x \<or> x = 0x002D
      then (case matchHere r xs of Some m \<Rightarrow> Some (x # m) | None \<Rightarrow> matchHere r (x # xs))
      else matchHere r (x # xs))"

text \<open>\<open>text.match(pattern)[0]\<close>: the leftmost match, or nothing.\<close>

fun firstMatch :: "atom list \<Rightarrow> jsstring \<Rightarrow> jsstring option" where
  "firstMatch p [] = matchHere p []"
| "firstMatch p (x # xs) =
     (case matchHere p (x # xs) of Some m \<Rightarrow> Some m | None \<Rightarrow> firstMatch p xs)"

definition phonePatterns :: "atom list list" where
  "phonePatterns =
    [[Lit 0x002B, Lit 0x0037,
      Digit, Digit, Digit, Digit, Digit, Digit, Digit, Digit, Digit, Digit],
     [Lit 0x0038,
      Digit, Digit, Digit, Digit, Digit, Digit, Digit, Digit, Digit, Digit],
     [Lit 0x002B, Lit 0x0037, OptSpace, Lit 0x0028, Digit, Digit, Digit, Lit 0x0029, OptSpace,
      Digit, Digit, Digit, OptSpaceDash, Digit, Digit, OptSpaceDash, Digit, Digit],
     [Lit 0x0038, OptSpace, Lit 0x0028, Digit, Digit, Digit, Lit 0x0029, OptSpace,
      Digit, Digit, Digit, OptSpaceDash, Digit, Digit, OptSpaceDash, Digit, Digit]]"

fun firstPattern :: "atom list list \<Rightarrow> jsstring \<Rightarrow> jsstring option" where
  "firstPattern [] t = None"
| "firstPattern (p # ps) t =
     (case firstMatch p t of
        Some m \<Rightarrow> Some (filter (\<lambda>c. \<not> isSpace c) m)
      | None \<Rightarrow> firstPattern ps t)"

definition extractPhoneNumber :: "jsstring \<Rightarrow> jsstring option" where
  "extractPhoneNumber t = firstPattern phonePatterns t"

section \<open>Messages and the message ledger\<close>

text \<open>The interface \<open>Message\<close> of the messages service.\<close>

record message =
  id_msg :: jsstring
  text_msg :: jsstring
  sender :: jsstring
  phoneNumber :: "jsstring option"
  timestamp :: jsstring

section \<open>What one \<open>page.evaluate\<close> sees\<close>

text \<open>
  The two extraction callbacks run inside the browser. Their input is the rendered
  document, which is not under this program's control: the model takes the results of
  the callbacks' \<open>querySelectorAll\<close> calls as given. A \<open>node\<close> is one matched element:
  its \<open>textContent\<close>, and what \<open>Date.now()\<close>, \<open>new Date().toISOString()\<close> and the
  rendering of \<open>Math.random()\<close> yield while the callback handles it.
\<close>

record node =
  textContent :: jsstring
  dateNow :: nat
  toISOString :: jsstring
  mathRandom :: jsstring

text \<open>
  An element matched by the chat selector \<open>[class*="chat"], [class*="dialog"],
  [class*="conversation"]\<close>, with its descendants matched by
  \<open>[class*="message"], [class*="text"]\<close>.
\<close>

record chat =
  chatText :: jsstring
  chatHtml :: jsstring
  messageElements :: "node list"

text \<open>The document as the callback of \<open>checkForNewMessages\<close> queries it.\<close>

record document =
  chatItems :: "chat list"
  bodyText :: jsstring
  messageContainers :: "node list"

text \<open>
  The document as the callback of \<open>extractMessagesFromPage\<close> queries it: for each of
  the five \<open>possibleSelectors\<close> the matched elements (\<open>None\<close> when the query throws,
  which the callback swallows), and the elements matched by
  \<open>[class*="message"], [class*="Message"]\<close>.
\<close>

record preview_document =
  selected :: "nat \<Rightarrow> node list option"
  openChat :: "node list"

text \<open>
  One look at the page by \<open>checkForNewMessages\<close>: the address, and the outcome of
  each of the two \<open>page.evaluate\<close> calls (\<open>None\<close> when the call throws).
\<close>

record page_view =
  url :: jsstring
  evaluateChats :: "document option"
  evaluatePreviews :: "preview_document option"

section \<open>The extraction callbacks\<close>

definition matchesAny :: "jsstring \<Rightarrow> bool" where
  "matchesAny t \<longleftrightarrow> (\<exists>name \<in> set targetNames. js_includes t name)"

definition senderOf :: "jsstring \<Rightarrow> jsstring \<Rightarrow> jsstring" where
  "senderOf t fallback =
     (case List.find (\<lambda>name. js_includes t name) targetNames of
        Some name \<Rightarrow> if truthy name then name else fallback
      | None \<Rightarrow> fallback)"

text \<open>The structured pass over one chat element (\<open>messageElements.forEach\<close>).\<close>

definition chatMessages :: "chat \<Rightarrow> message list" where
  "chatMessages c =
     (if (\<exists>name \<in> set targetNames. js_includes (chatText c) name \<or> js_includes (chatHtml c) name)
      then
        concat (map (\<lambda>(index, msg).
          if truthy (trim (textContent msg))
          then [\<lparr>id_msg = chatText c @ ascii ''_'' @ dec index @ ascii ''_'' @ dec (dateNow msg),
                 text_msg = trim (textContent msg),
                 sender = senderOf (chatText c) (ascii ''Unknown''),
                 phoneNumber = orElse (extractPhoneNumber (chatText c)) (extractPhoneNumber (chatHtml c)),
                 timestamp = toISOString msg\<rparr>]
          else []) (enumerate 0 (messageElements c)))
      else [])"

text \<open>The heuristic pass over the whole document (\<open>messageContainers.forEach\<close>).\<close>

definition bodyMessages :: "document \<Rightarrow> message list" where
  "bodyMessages d =
     (if matchesAny (bodyText d)
      then
        concat (map (\<lambda>(index, container).
          if truthy (trim (textContent container)) \<and> length (trim (textContent container)) > 0
          then [\<lparr>id_msg = ascii ''msg_'' @ dec index @ ascii ''_'' @ dec (dateNow container),
                 text_msg = trim (textContent container),
                 sender = senderOf (trim (textContent container)) defaultSender,
                 phoneNumber = extractPhoneNumber (trim (textContent container)),
                 timestamp = toISOString container\<rparr>]
          else []) (enumerate 0 (messageContainers d)))
      else [])"

text \<open>\<open>foundMessages\<close> as the callback of \<open>checkForNewMessages\<close> returns it.\<close>

definition foundMessages :: "document \<Rightarrow> message list" where
  "foundMessages d = concat (map chatMessages (chatItems d)) @ bodyMessages d"

text \<open>
  The chat-list previews of \<open>extractMessagesFromPage\<close>: one selector's elements,
  then all five selectors in order.
\<close>

definition previewMessages :: "node list \<Rightarrow> message list" where
  "previewMessages els =
     concat (map (\<lambda>el.
       if matchesAny (textContent el)
       then (let previewText = trim (lastLine (textContent el)) in
             if truthy previewText \<and> length previewText > 0 \<and> length previewText < 500
             then [\<lparr>id_msg = ascii ''preview_'' @ dec (dateNow el) @ ascii ''_'' @ mathRandom el,
                    text_msg = previewText,
                    sender = senderOf (textContent el) defaultSender,
                    phoneNumber = orElse (extractPhoneNumber (textContent el))
                                         (extractPhoneNumber previewText),
                    timestamp = toISOString el\<rparr>]
             else [])
       else []) els)"

text \<open>
  The open conversation of \<open>extractMessagesFromPage\<close>. The two words that exclude a
  container are the compose prompt's verb (eight code units) and the noun "message"
  (nine code units).
\<close>

definition openChatMessages :: "node list \<Rightarrow> message list" where
  "openChatMessages els =
     concat (map (\<lambda>container.
       if truthy (trim (textContent container)) \<and> length (trim (textContent container)) > 0
          \<and> length (trim (textContent container)) < 1000
       then (if \<not> js_includes (trim (textContent container))
                     [0x041D, 0x0430, 0x043F, 0x0438, 0x0441, 0x0430, 0x0442, 0x044C]
                \<and> \<not> js_includes (trim (textContent container))
                     [0x0441, 0x043E, 0x043E, 0x0431, 0x0449, 0x0435, 0x043D, 0x0438, 0x0435]
             then [\<lparr>id_msg = ascii ''msg_'' @ dec (dateNow container) @ ascii ''_'' @ mathRandom container,
                    text_msg = trim (textContent container),
                    sender = defaultSender,
                    phoneNumber = extractPhoneNumber (trim (textContent container)),
                    timestamp = toISOString container\<rparr>]
             else [])
       else []) els)"

definition foundPreviewMessages :: "preview_document \<Rightarrow> message list" where
  "foundPreviewMessages d =
     concat (map (\<lambda>i. case selected d i of None \<Rightarrow> [] | Some els \<Rightarrow> previewMessages els) [0..<5])
     @ openChatMessages (openChat d)"

section \<open>The service and its surroundings\<close>

text \<open>
  The fields of \<open>PuppeteerService\<close> (\<open>browser\<close>, \<open>page\<close>, \<open>isRunning\<close>,
  \<open>messageCheckInterval\<close>, \<open>processedMessages\<close>), the array \<open>messages\<close> of the
  injected \<open>MessagesService\<close>, and the browsers of the machine: \<open>openBrowsers\<close> are
  the browser processes that are alive, \<open>launched\<close> counts the calls of
  \<open>puppeteer.launch\<close> that succeeded; the next browser gets that number as handle.
\<close>

type_synonym handle = nat

record state =
  browser :: "handle option"
  page :: "handle option"
  isRunning :: bool
  messageCheckInterval :: "unit option"
  processedMessages :: "jsstring set"
  messages :: "message list"
  openBrowsers :: "handle set"
  launched :: nat

text \<open>The state of a freshly constructed service in a fresh process.\<close>

definition initial :: state where
  "initial = \<lparr>browser = None, page = None, isRunning = False, messageCheckInterval = None,
              processedMessages = {}, messages = [], openBrowsers = {}, launched = 0\<rparr>"

text \<open>
  \<open>MessagesService.addMessage\<close> appends to the ledger. (It then calls the subscribed
  listeners, each inside its own \<open>try\<close>; they belong to the fan-out and do not touch
  this state.)
\<close>

definition addMessage :: "message \<Rightarrow> state \<Rightarrow> state" where
  "addMessage m s = s\<lparr>messages := messages s @ [m]\<rparr>"

section \<open>Deduplication and the poll\<close>

definition messageKey :: "message \<Rightarrow> jsstring" where
  "messageKey m = sender m @ ascii ''_'' @ take 100 (text_msg m)"

text \<open>
  The loop \<open>for (const message of messages)\<close>, which \<open>checkForNewMessages\<close> and
  \<open>extractMessagesFromPage\<close> both run over what their callback returned.
\<close>

fun dedupLoop :: "message list \<Rightarrow> state \<Rightarrow> state" where
  "dedupLoop [] s = s"
| "dedupLoop (m # ms) s =
     dedupLoop ms
       (if messageKey m \<notin> processedMessages s \<and> truthy (trim (text_msg m))
        then addMessage m (s\<lparr>processedMessages := insert (messageKey m) (processedMessages s)\<rparr>)
        else s)"

text \<open>
  \<open>extractMessagesFromPage\<close> and \<open>checkForNewMessages\<close>, each taken as a whole:
  nothing else runs while the call waits for its callback. What happens when another
  handler runs in between is the subject of the section on overlapping handlers.
\<close>

definition extractMessagesFromPage :: "state \<Rightarrow> page_view \<Rightarrow> state" where
  "extractMessagesFromPage s v =
     (if page s = None then s
      else case evaluatePreviews v of
             None \<Rightarrow> s
           | Some d \<Rightarrow> dedupLoop (foundPreviewMessages d) s)"

definition isOnMessengerPage :: "jsstring \<Rightarrow> bool" where
  "isOnMessengerPage currentUrl \<longleftrightarrow>
     js_includes currentUrl (ascii ''messenger'') \<or> js_includes currentUrl (ascii ''message'')
     \<or> js_includes currentUrl (ascii ''/profile/'') \<or> js_includes currentUrl (ascii ''/cabinet/'')"

definition checkForNewMessages :: "state \<Rightarrow> page_view \<Rightarrow> state" where
  "checkForNewMessages s v =
     (if page s = None then s
      else if \<not> isOnMessengerPage (url v) then s
      else case evaluateChats v of
             None \<Rightarrow> s
           | Some d \<Rightarrow> extractMessagesFromPage (dedupLoop (foundMessages d) s) v)"

text \<open>
  The callback that \<open>startMessageMonitoring\<close> hands to \<open>setInterval\<close>: one poll tick.
  (\<open>checkCount\<close> only drives a log line.)
\<close>

definition pollTick :: "state \<Rightarrow> page_view \<Rightarrow> state" where
  "pollTick s v = (if \<not> isRunning s \<or> page s = None then s else checkForNewMessages s v)"

section \<open>Notions used to state the properties\<close>

text \<open>
  What the extraction passes of one look at the page yield, in the order in which the
  two loops meet it: nothing when the address fails the gate or the first callback
  throws.
\<close>

definition extracted :: "page_view \<Rightarrow> message list" where
  "extracted v =
     (if \<not> isOnMessengerPage (url v) then []
      else case evaluateChats v of
             None \<Rightarrow> []
           | Some d \<Rightarrow> foundMessages d @
               (case evaluatePreviews v of None \<Rightarrow> [] | Some p \<Rightarrow> foundPreviewMessages p))"

text \<open>The messages that a run of the loop forwards, given the keys seen before it.\<close>

fun accepted :: "jsstring set \<Rightarrow> message list \<Rightarrow> message list" where
  "accepted seen [] = []"
| "accepted seen (m # ms) =
     (if messageKey m \<notin> seen \<and> truthy (trim (text_msg m))
      then m # accepted (insert (messageKey m) seen) ms
      else accepted seen ms)"

section \<open>Fixed messages of the source\<close>

text \<open>
  The literal messages that the service returns or throws. The Russian ones are given
  by their UTF-16 code units; in English they read: "Wrong SMS code. Enter the code
  again." (\<open>invalidSmsCode\<close>), "Authorization is not confirmed"
  (\<open>notConfirmed\<close>), "Error during authorization" (\<open>loginError\<close>), "Authorization
  was not completed within 5 minutes. Please log in and try again." (\<open>manualTimeout\<close>),
  "Error while starting the monitoring" (\<open>startError\<close>), "Authorization failed. Check
  that the data is correct." (\<open>loginFailed\<close>), "SMS code required" (\<open>smsRequired\<close>).
\<close>

definition invalidSmsCode :: jsstring where
  "invalidSmsCode =
    [0x041D, 0x0435, 0x0432, 0x0435, 0x0440, 0x043D, 0x044B, 0x0439, 0x0020, 0x0053,
     0x004D, 0x0053, 0x002D, 0x043A, 0x043E, 0x0434, 0x002E, 0x0020, 0x0412, 0x0432,
     0x0435, 0x0434, 0x0438, 0x0442, 0x0435, 0x0020, 0x043A, 0x043E, 0x0434, 0x0020,
     0x0437, 0x0430, 0x043D, 0x043E, 0x0432, 0x043E, 0x002E]"

definition notConfirmed :: jsstring where
  "notConfirmed =
    [0x0410, 0x0432, 0x0442, 0x043E, 0x0440, 0x0438, 0x0437, 0x0430, 0x0446, 0x0438,
     0x044F, 0x0020, 0x043D, 0x0435, 0x0020, 0x043F, 0x043E, 0x0434, 0x0442, 0x0432,
     0x0435, 0x0440, 0x0436, 0x0434, 0x0435, 0x043D, 0x0430]"

definition loginError :: jsstring where
  "loginError =
    [0x041E, 0x0448, 0x0438, 0x0431, 0x043A, 0x0430, 0x0020, 0x043F, 0x0440, 0x0438,
     0x0020, 0x0430, 0x0432, 0x0442, 0x043E, 0x0440, 0x0438, 0x0437, 0x0430, 0x0446,
     0x0438, 0x0438]"

definition manualTimeout :: jsstring where
  "manualTimeout =
    [0x0410, 0x0432, 0x0442, 0x043E, 0x0440, 0x0438, 0x0437, 0x0430, 0x0446, 0x0438,
     0x044F, 0x0020, 0x043D, 0x0435, 0x0020, 0x0432, 0x044B, 0x043F, 0x043E, 0x043B,
     0x043D, 0x0435, 0x043D, 0x0430, 0x0020, 0x0432, 0x0020, 0x0442, 0x0435, 0x0447,
     0x0435, 0x043D, 0x0438, 0x0435, 0x0020, 0x0035, 0x0020, 0x043C, 0x0438, 0x043D,
     0x0443, 0x0442, 0x002E, 0x0020, 0x041F, 0x043E, 0x0436, 0x0430, 0x043B, 0x0443,
     0x0439, 0x0441, 0x0442, 0x0430, 0x002C, 0x0020, 0x0430, 0x0432, 0x0442, 0x043E,
     0x0440, 0x0438, 0x0437, 0x0443, 0x0439, 0x0442, 0x0435, 0x0441, 0x044C, 0x0020,
     0x0438, 0x0020, 0x043F, 0x043E, 0x043F, 0x0440, 0x043E, 0x0431, 0x0443, 0x0439,
     0x0442, 0x0435, 0x0020, 0x0441, 0x043D, 0x043E, 0x0432, 0x0430, 0x002E]"

definition startError :: jsstring where
  "startError =
    [0x041E, 0x0448, 0x0438, 0x0431, 0x043A, 0x0430, 0x0020, 0x043F, 0x0440, 0x0438,
     0x0020, 0x0437, 0x0430, 0x043F, 0x0443, 0x0441, 0x043A, 0x0435, 0x0020, 0x043C,
     0x043E, 0x043D, 0x0438, 0x0442, 0x043E, 0x0440, 0x0438, 0x043D, 0x0433, 0x0430]"

definition loginFailed :: jsstring where
  "loginFailed =
    [0x0410, 0x0432, 0x0442, 0x043E, 0x0440, 0x0438, 0x0437, 0x0430, 0x0446, 0x0438,
     0x044F, 0x0020, 0x043D, 0x0435, 0x0020, 0x0443, 0x0434, 0x0430, 0x043B, 0x0430,
     0x0441, 0x044C, 0x002E, 0x0020, 0x041F, 0x0440, 0x043E, 0x0432, 0x0435, 0x0440,
     0x044C, 0x0442, 0x0435, 0x0020, 0x043F, 0x0440, 0x0430, 0x0432, 0x0438, 0x043B,
     0x044C, 0x043D, 0x043E, 0x0441, 0x0442, 0x044C, 0x0020, 0x0434, 0x0430, 0x043D,
     0x043D, 0x044B, 0x0445, 0x002E]"

definition smsRequired :: jsstring where
  "smsRequired =
    [0x0422, 0x0440, 0x0435, 0x0431, 0x0443, 0x0435, 0x0442, 0x0441, 0x044F, 0x0020,
     0x0053, 0x004D, 0x0053, 0x002D, 0x043A, 0x043E, 0x0434]"

definition phoneNotFound :: jsstring where
  "phoneNotFound = ascii ''Phone input field not found on login page''"

definition passwordNotFound :: jsstring where
  "passwordNotFound = ascii ''Password input field not found''"

definition pageNotInitialized :: jsstring where
  "pageNotInitialized = ascii ''Page is not initialized''"

text \<open>
  The messages of the \<open>TypeError\<close> that the runtime raises when a property is read from
  \<open>undefined\<close> or \<open>null\<close>.
\<close>

definition undefinedError :: jsstring where
  \<open>undefinedError = ascii ''Cannot read properties of undefined (reading 'error')''\<close>

definition nullPageError :: jsstring where
  \<open>nullPageError = ascii ''Cannot read properties of null (reading 'waitForTimeout')''\<close>

text \<open>
  The system messages: sender "System", and the two texts (a check mark, then "Monitoring
  is started and ready to work! Waiting for messages from ..." and "Messenger is open!
  Monitoring is active and ready to work.").
\<close>

definition systemSender :: jsstring where
  "systemSender = [0x0421, 0x0438, 0x0441, 0x0442, 0x0435, 0x043C, 0x0430]"

definition readyText :: jsstring where
  "readyText =
    [0x2705, 0x0020, 0x041C, 0x043E, 0x043D, 0x0438, 0x0442, 0x043E, 0x0440, 0x0438,
     0x043D, 0x0433, 0x0020, 0x0437, 0x0430, 0x043F, 0x0443, 0x0449, 0x0435, 0x043D,
     0x0020, 0x0438, 0x0020, 0x0433, 0x043E, 0x0442, 0x043E, 0x0432, 0x0020, 0x043A,
     0x0020, 0x0440, 0x0430, 0x0431, 0x043E, 0x0442, 0x0435, 0x0021, 0x0020, 0x041E,
     0x0436, 0x0438, 0x0434, 0x0430, 0x043D, 0x0438, 0x0435, 0x0020, 0x0441, 0x043E,
     0x043E, 0x0431, 0x0449, 0x0435, 0x043D, 0x0438, 0x0439, 0x0020, 0x043E, 0x0442,
     0x0020, 0x0022, 0x0420, 0x0443, 0x0448, 0x0430, 0x043D, 0x0022, 0x0020, 0x0438,
     0x043B, 0x0438, 0x0020, 0x0022, 0x0420, 0x0443, 0x0448, 0x0430, 0x043D, 0x0020,
     0x041D, 0x0430, 0x0442, 0x0444, 0x0443, 0x043B, 0x043B, 0x0438, 0x043D, 0x0022,
     0x002E, 0x002E, 0x002E]"

definition messengerReadyText :: jsstring where
  "messengerReadyText =
    [0x2705, 0x0020, 0x041C, 0x0435, 0x0441, 0x0441, 0x0435, 0x043D, 0x0434, 0x0436,
     0x0435, 0x0440, 0x0020, 0x043E, 0x0442, 0x043A, 0x0440, 0x044B, 0x0442, 0x0021,
     0x0020, 0x041C, 0x043E, 0x043D, 0x0438, 0x0442, 0x043E, 0x0440, 0x0438, 0x043D,
     0x0433, 0x0020, 0x0430, 0x043A, 0x0442, 0x0438, 0x0432, 0x0435, 0x043D, 0x0020,
     0x0438, 0x0020, 0x0433, 0x043E, 0x0442, 0x043E, 0x0432, 0x0020, 0x043A, 0x0020,
     0x0440, 0x0430, 0x0431, 0x043E, 0x0442, 0x0435, 0x002E]"

text \<open>\<open>error.message || fallback\<close>.\<close>

definition messageOr :: "jsstring \<Rightarrow> jsstring \<Rightarrow> jsstring" where
  "messageOr e fallback = (if truthy e then e else fallback)"

text \<open>A parameter or field that is a string or \<open>undefined\<close>, used as a condition.\<close>

definition given :: "jsstring option \<Rightarrow> bool" where
  "given x \<longleftrightarrow> (case x of None \<Rightarrow> False | Some t \<Rightarrow> truthy t)"

section \<open>Teardown and status\<close>

text \<open>
  \<open>cleanup\<close>: the handles are released after \<open>browser.close()\<close> has returned. When
  \<open>close\<close> throws, the \<open>catch\<close> only logs, and both fields keep their values; the
  argument says whether \<open>close\<close> throws. Whether the browser process survives a failed
  \<open>close\<close> is not known; it stays in \<open>openBrowsers\<close>.
\<close>

definition cleanup :: "state \<Rightarrow> bool \<Rightarrow> state" where
  "cleanup s closeThrows =
     (case browser s of
        None \<Rightarrow> s
      | Some b \<Rightarrow>
          if closeThrows then s
          else s\<lparr>browser := None, page := None, openBrowsers := openBrowsers s - {b}\<rparr>)"

definition stopMonitoring :: "state \<Rightarrow> bool \<Rightarrow> state" where
  "stopMonitoring s closeThrows =
     cleanup (s\<lparr>isRunning := False, messageCheckInterval := None, processedMessages := {}\<rparr>) closeThrows"

text \<open>
  \<open>getStatus\<close>; the second argument is what \<open>page.url()\<close> returns, read only when
  there is a page.
\<close>

record status =
  isRunning_status :: bool
  browserOpen :: bool
  currentUrl :: "jsstring option"
  processedMessagesCount :: nat

definition getStatus :: "state \<Rightarrow> jsstring \<Rightarrow> status" where
  "getStatus s pageUrl =
     \<lparr>isRunning_status = isRunning s,
      browserOpen = (browser s \<noteq> None),
      currentUrl = (if page s = None then None else Some pageUrl),
      processedMessagesCount = card (processedMessages s)\<rparr>"

section \<open>Authentication detection\<close>

text \<open>
  What \<open>checkIfLoggedIn\<close> reads from the page: the address, whether each of its
  queries found an element, and whether one of the queries throws (the \<open>catch\<close> then
  answers \<open>false\<close>).
\<close>

record auth_view =
  location :: jsstring
  profileButton :: bool
  messengerButton :: bool
  userMenu :: bool
  authButton :: bool
  hasProfile :: bool
  hasLogin :: bool
  queryThrows :: bool

definition isAuthenticatedUrl :: "jsstring \<Rightarrow> bool" where
  "isAuthenticatedUrl u \<longleftrightarrow>
     js_includes u (ascii ''/profile'') \<or> js_includes u (ascii ''/cabinet'')
     \<or> js_includes u (ascii ''/messenger'')"

definition checkIfLoggedIn :: "state \<Rightarrow> auth_view \<Rightarrow> bool" where
  "checkIfLoggedIn s a =
     (if page s = None then False
      else if isAuthenticatedUrl (location a) then True
      else if queryThrows a then False
      else (profileButton a \<or> messengerButton a \<or> userMenu a \<or> hasProfile a)
           \<and> (\<not> authButton a \<and> \<not> hasLogin a))"

section \<open>The credential login\<close>

text \<open>
  What \<open>login\<close> does to the page is recorded as the list of the actions it issues, in
  order. An element handle is named by the selector that produced it. Sleeps
  (\<open>waitForTimeout\<close>) and the waits for the form (\<open>waitForSelector\<close>, whose failures
  are swallowed) leave no trace. Calls of the page interface are taken to succeed,
  except where the source reacts to their failure in a way of its own (a retry, a
  fallback, a \<open>continue\<close>): there, failure is a choice of the environment.
\<close>

datatype target = Element jsstring

datatype action =
    Goto jsstring
  | Click target nat
  | TypeText target jsstring
  | PressEnter target
  | SetInputType target jsstring
  | Screenshot jsstring

text \<open>
  One turn of a selector loop: the query throws, finds nothing, or finds an element
  whose visibility check throws (\<open>None\<close>) or answers.
\<close>

datatype probe = QueryThrows | NoMatch | Match "bool option"

text \<open>
  The loops \<open>for (const selector of phoneSelectors)\<close> and \<open>passwordSelectors\<close>. The
  last argument is the loop variable (\<open>phoneInput\<close>, \<open>passwordInput\<close>): a throw leaves
  it as it is, an invisible match resets it.
\<close>

fun firstVisible :: "(jsstring \<Rightarrow> probe) \<Rightarrow> jsstring list \<Rightarrow> jsstring option \<Rightarrow> jsstring option" where
  "firstVisible probes [] cur = cur"
| "firstVisible probes (selector # rest) cur =
     (case probes selector of
        QueryThrows \<Rightarrow> firstVisible probes rest cur
      | NoMatch \<Rightarrow> firstVisible probes rest None
      | Match None \<Rightarrow> firstVisible probes rest (Some selector)
      | Match (Some visible) \<Rightarrow>
          if visible then Some selector else firstVisible probes rest None)"

definition phoneSelectors :: "jsstring list" where
  \<open>phoneSelectors =
    [ascii ''input[data-marker="login-form/login/input"]'',
     ascii ''input[name="login"]'',
     ascii ''input[placeholder*="''
     @ [0x0422, 0x0435, 0x043B, 0x0435, 0x0444, 0x043E, 0x043D]
     @ ascii ''"]'',
     ascii ''input[placeholder*="''
     @ [0x0442, 0x0435, 0x043B, 0x0435, 0x0444, 0x043E, 0x043D]
     @ ascii ''"]'',
     ascii ''input[type="tel"]'',
     ascii ''input[autocomplete="username"]'']\<close>

definition passwordSelectors :: "jsstring list" where
  \<open>passwordSelectors =
    [ascii ''input[data-marker="login-form/password/input"]'',
     ascii ''input[name="password"]'',
     ascii ''input[type="password"]'',
     ascii ''input[autocomplete="current-password"]'']\<close>

definition submitSelector :: jsstring where
  \<open>submitSelector = ascii ''button[type="submit"]''\<close>

text \<open>
  The selector of the one-time-code input after the secret was submitted, and the
  narrower one used when no secret input is found and in the last check.
\<close>

definition codeSelector :: jsstring where
  \<open>codeSelector =
    ascii ''input[type="text"], input[type="number"], input[placeholder*="''
    @ [0x043A, 0x043E, 0x0434]
    @ ascii ''"], input[placeholder*="''
    @ [0x041A, 0x043E, 0x0434]
    @ ascii ''"], input[data-marker*="code"], input[data-marker*="sms"]''\<close>

definition codeSelectorNarrow :: jsstring where
  \<open>codeSelectorNarrow =
    ascii ''input[type="text"], input[type="number"], input[placeholder*="''
    @ [0x043A, 0x043E, 0x0434]
    @ ascii ''"], input[placeholder*="''
    @ [0x041A, 0x043E, 0x0434]
    @ ascii ''"]''\<close>

definition loginUrl :: jsstring where
  "loginUrl = ascii ''https://www.avito.ru/#login?authsrc=h''"

text \<open>\<open>phone.replace(/[\s\-\(\)]/g, '')\<close>.\<close>

definition normalizedPhone :: "jsstring \<Rightarrow> jsstring" where
  "normalizedPhone phone =
     filter (\<lambda>c. \<not> (isSpace c \<or> c = 0x002D \<or> c = 0x0028 \<or> c = 0x0029)) phone"

text \<open>
  The submit step that follows each typed value: the query throws, there is no button,
  or there is one and its click throws or not. Every failure ends in pressing Enter on
  the input.
\<close>

datatype button = ButtonQueryThrows | NoButton | Button bool

definition submitOrEnter :: "button \<Rightarrow> target \<Rightarrow> action list" where
  "submitOrEnter b input =
     (case b of
        ButtonQueryThrows \<Rightarrow> [PressEnter input]
      | NoButton \<Rightarrow> [PressEnter input]
      | Button clickThrows \<Rightarrow>
          if clickThrows then [Click (Element submitSelector) 1, PressEnter input]
          else [Click (Element submitSelector) 1])"

text \<open>The attributes read from a candidate code input.\<close>

record input_attrs =
  placeholder :: jsstring
  dataMarker :: jsstring
  inputType :: jsstring

text \<open>
  The test \<open>isSmsField\<close> of the first check after the secret (seven alternatives), and
  the test used by the other three checks (four alternatives). The Russian word is
  "code", in lower case and capitalised.
\<close>

definition isSmsField :: "input_attrs \<Rightarrow> bool" where
  "isSmsField a \<longleftrightarrow>
     js_includes (placeholder a) [0x043A, 0x043E, 0x0434] \<or> js_includes (placeholder a) (ascii ''code'')
     \<or> js_includes (placeholder a) [0x041A, 0x043E, 0x0434]
     \<or> js_includes (dataMarker a) (ascii ''code'') \<or> js_includes (dataMarker a) (ascii ''sms'')
     \<or> js_includes (dataMarker a) (ascii ''Code'') \<or> js_includes (dataMarker a) (ascii ''SMS'')"

definition isCodeField :: "input_attrs \<Rightarrow> bool" where
  "isCodeField a \<longleftrightarrow>
     js_includes (placeholder a) [0x043A, 0x043E, 0x0434] \<or> js_includes (placeholder a) (ascii ''code'')
     \<or> js_includes (dataMarker a) (ascii ''code'') \<or> js_includes (dataMarker a) (ascii ''sms'')"

text \<open>
  The callback that looks for an inline error: the first element of the error classes
  whose text contains one of four stems ("wrong", "incorrect", "error" in Russian, and
  \<open>error\<close>), trimmed. The argument lists the \<open>textContent\<close> of the matched elements.
\<close>

definition errorText :: "jsstring list \<Rightarrow> jsstring option" where
  "errorText texts =
     map_option trim
       (List.find (\<lambda>t. truthy t \<and>
           (js_includes t [0x043D, 0x0435, 0x0432, 0x0435, 0x0440, 0x043D]
            \<or> js_includes t [0x043D, 0x0435, 0x043F, 0x0440, 0x0430, 0x0432, 0x0438,
                                 0x043B, 0x044C, 0x043D]
            \<or> js_includes t [0x043E, 0x0448, 0x0438, 0x0431, 0x043A]
            \<or> js_includes t (ascii ''error''))) texts)"

text \<open>Everything \<open>login\<close> observes, in the order of the source.\<close>

record login_view =
  gotoLogin :: "jsstring option"
  gotoLoginRetry :: "jsstring option"
  urlAfterGoto :: jsstring
  phoneProbes :: "jsstring \<Rightarrow> probe"
  nextButton :: button
  passwordProbes :: "jsstring \<Rightarrow> probe"
  urlAfterPhone :: jsstring
  codeAfterPhone :: "input_attrs option"
  errorsAfterPhone :: "jsstring list"
  submitButton :: button
  codeFirst :: "input_attrs option"
  codeSecond :: "input_attrs option"
  confirmButton :: button
  errorsAfterCode :: "jsstring list"
  authAfterCode :: auth_view
  codeStill :: "input_attrs option"
  errorsAfterSubmit :: "jsstring list"
  authAfterSubmit :: auth_view
  codeCheck :: "input_attrs option"
  authRetry :: auth_view
  errorsFinal :: "jsstring list"

record login_result =
  requiresSms :: bool
  error :: "jsstring option"

text \<open>No secret input was found: lines 437 to 474. \<open>Inl\<close> is the thrown error.\<close>

definition noPasswordInput :: "login_view \<Rightarrow> jsstring + login_result" where
  "noPasswordInput v =
     (if isAuthenticatedUrl (urlAfterPhone v) then Inr \<lparr>requiresSms = False, error = None\<rparr>
      else if (case codeAfterPhone v of None \<Rightarrow> False | Some a \<Rightarrow> isCodeField a)
      then Inr \<lparr>requiresSms = True, error = None\<rparr>
      else if given (errorText (errorsAfterPhone v))
      then Inr \<lparr>requiresSms = False, error = errorText (errorsAfterPhone v)\<rparr>
      else Inl passwordNotFound)"

text \<open>
  The re-check after a code was submitted, lines 568 to 580: the user does not count as
  logged in, and the code input is found again and passes the four-word test. (The
  source's comment: if the SMS code is still required, the code was wrong.)
\<close>

definition stillRequiresCode :: "state \<Rightarrow> login_view \<Rightarrow> bool" where
  "stillRequiresCode s v \<longleftrightarrow>
     \<not> checkIfLoggedIn s (authAfterCode v)
     \<and> (case codeStill v of None \<Rightarrow> False | Some still \<Rightarrow> isCodeField still)"

text \<open>
  The one-time-code step, lines 504 to 589: the result when the step returns, \<open>None\<close>
  when it falls through to the checks that follow, and the actions issued.
\<close>

definition codeEntry :: "state \<Rightarrow> jsstring option \<Rightarrow> login_view \<Rightarrow> login_result option \<times> action list" where
  "codeEntry s smsCode v =
     (case (case codeFirst v of Some a \<Rightarrow> Some a | None \<Rightarrow> codeSecond v) of
        None \<Rightarrow> (None, [])
      | Some a \<Rightarrow>
          if \<not> isSmsField a then (None, [])
          else case smsCode of
            None \<Rightarrow> (Some \<lparr>requiresSms = True, error = None\<rparr>, [])
          | Some code \<Rightarrow>
              if \<not> truthy code then (Some \<lparr>requiresSms = True, error = None\<rparr>, [])
              else
                (if given (errorText (errorsAfterCode v))
                 then Some \<lparr>requiresSms = True, error = errorText (errorsAfterCode v)\<rparr>
                 else if stillRequiresCode s v
                 then Some \<lparr>requiresSms = True, error = Some invalidSmsCode\<rparr>
                 else None,
                 [Click (Element codeSelector) 3, TypeText (Element codeSelector) code]
                 @ submitOrEnter (confirmButton v) (Element codeSelector)))"

text \<open>
  The check of lines 614 to 627, made when the user does not count as logged in after
  the secret: a code input is found (by the narrower selector) and passes the four-word
  test.
\<close>

definition codeRequested :: "login_view \<Rightarrow> bool" where
  "codeRequested v \<longleftrightarrow> (case codeCheck v of None \<Rightarrow> False | Some a \<Rightarrow> isCodeField a)"

text \<open>The checks after the one-time-code step, lines 591 to 655.\<close>

definition loginFinish :: "state \<Rightarrow> jsstring option \<Rightarrow> login_view \<Rightarrow> login_result" where
  "loginFinish s smsCode v =
     (if given (errorText (errorsAfterSubmit v))
      then \<lparr>requiresSms = False, error = errorText (errorsAfterSubmit v)\<rparr>
      else if checkIfLoggedIn s (authAfterSubmit v) then \<lparr>requiresSms = False, error = None\<rparr>
      else if codeRequested v
      then (if \<not> given smsCode then \<lparr>requiresSms = True, error = None\<rparr>
            else \<lparr>requiresSms = True, error = Some invalidSmsCode\<rparr>)
      else if checkIfLoggedIn s (authRetry v) then \<lparr>requiresSms = False, error = None\<rparr>
      else if given (errorText (errorsFinal v))
      then \<lparr>requiresSms = False, error = errorText (errorsFinal v)\<rparr>
      else \<lparr>requiresSms = False, error = Some loginFailed\<rparr>)"

text \<open>
  The body of the \<open>try\<close> of \<open>login\<close> once the login address is loaded; the last
  argument holds the actions issued so far. \<open>Inl\<close> is an error thrown inside the
  \<open>try\<close>; \<open>Inr None\<close> is the bare \<open>return;\<close> taken when the address already shows an
  authenticated area.
\<close>

definition loginForm ::
  "state \<Rightarrow> jsstring \<Rightarrow> jsstring \<Rightarrow> jsstring option \<Rightarrow> login_view \<Rightarrow> action list
   \<Rightarrow> (jsstring + login_result option) \<times> action list" where
  "loginForm s phone password smsCode v done =
     (if isAuthenticatedUrl (urlAfterGoto v) then (Inr None, done)
      else case firstVisible (phoneProbes v) phoneSelectors None of
        None \<Rightarrow> (Inl phoneNotFound, done)
      | Some phoneInput \<Rightarrow>
          (case firstVisible (passwordProbes v) passwordSelectors None of
             None \<Rightarrow>
               (map_sum id Some (noPasswordInput v),
                done @ [Click (Element phoneInput) 3,
                        TypeText (Element phoneInput) (normalizedPhone phone)]
                     @ submitOrEnter (nextButton v) (Element phoneInput))
           | Some passwordInput \<Rightarrow>
               (Inr (Some (case fst (codeEntry s smsCode v) of
                             Some r \<Rightarrow> r
                           | None \<Rightarrow> loginFinish s smsCode v)),
                done @ [Click (Element phoneInput) 3,
                        TypeText (Element phoneInput) (normalizedPhone phone)]
                     @ submitOrEnter (nextButton v) (Element phoneInput)
                     @ [Click (Element passwordInput) 3,
                        TypeText (Element passwordInput) password,
                        SetInputType (Element passwordInput) (ascii ''text'')]
                     @ submitOrEnter (submitButton v) (Element passwordInput)
                     @ snd (codeEntry s smsCode v))))"

definition loginSteps ::
  "state \<Rightarrow> jsstring \<Rightarrow> jsstring \<Rightarrow> jsstring option \<Rightarrow> login_view
   \<Rightarrow> (jsstring + login_result option) \<times> action list" where
  "loginSteps s phone password smsCode v =
     (case gotoLogin v of
        None \<Rightarrow> loginForm s phone password smsCode v [Goto loginUrl]
      | Some first \<Rightarrow>
          (case gotoLoginRetry v of
             None \<Rightarrow> loginForm s phone password smsCode v [Goto loginUrl, Goto loginUrl]
           | Some e \<Rightarrow> (Inl e, [Goto loginUrl, Goto loginUrl])))"

text \<open>
  \<open>login\<close>. The check of \<open>this.page\<close> stands before the \<open>try\<close>, so its error leaves
  the function (\<open>Inl\<close>); an error thrown inside the \<open>try\<close> is turned into a result by
  the \<open>catch\<close>, which also takes a screenshot.
\<close>

definition login ::
  "state \<Rightarrow> jsstring \<Rightarrow> jsstring \<Rightarrow> jsstring option \<Rightarrow> login_view
   \<Rightarrow> (jsstring + login_result option) \<times> action list" where
  "login s phone password smsCode v =
     (if page s = None then (Inl pageNotInitialized, [])
      else case loginSteps s phone password smsCode v of
             (Inl e, done) \<Rightarrow>
               (Inr (Some \<lparr>requiresSms = False, error = Some (messageOr e loginError)\<rparr>),
                done @ [Screenshot (ascii ''error-login-page.png'')])
           | (Inr r, done) \<Rightarrow> (Inr r, done))"

section \<open>Navigation to the messenger\<close>

text \<open>
  \<open>navigateToMessenger\<close> first looks for a link to click, selector by selector. A
  \<open>link\<close> is one matched element: reading it throws, or it has a lower-cased text, an
  \<open>href\<close>, and a click that throws or not. A throw abandons the selector (the \<open>catch\<close>
  continues with the next one). The two Russian stems are "message" and "messenger".
\<close>

datatype link = LinkThrows | Link jsstring jsstring bool

fun scanLinks :: "link list \<Rightarrow> bool option" where
  "scanLinks [] = Some False"
| "scanLinks (LinkThrows # rest) = None"
| "scanLinks (Link linkText href clickThrows # rest) =
     (if js_includes linkText [0x0441, 0x043E, 0x043E, 0x0431, 0x0449, 0x0435, 0x043D,
                               0x0438]
         \<or> js_includes linkText [0x043C, 0x0435, 0x0441, 0x0441, 0x0435, 0x043D,
                                     0x0434, 0x0436, 0x0435, 0x0440]
         \<or> js_includes href (ascii ''messenger'')
      then (if clickThrows then None else Some True)
      else scanLinks rest)"

fun clickMessengerLink :: "(jsstring \<Rightarrow> link list option) \<Rightarrow> jsstring list \<Rightarrow> bool" where
  "clickMessengerLink query [] = False"
| "clickMessengerLink query (selector # rest) =
     (case query selector of
        None \<Rightarrow> clickMessengerLink query rest
      | Some found \<Rightarrow>
          (case scanLinks found of
             Some True \<Rightarrow> True
           | Some False \<Rightarrow> clickMessengerLink query rest
           | None \<Rightarrow> clickMessengerLink query rest))"

definition messengerLinkSelectors :: "jsstring list" where
  \<open>messengerLinkSelectors =
    [ascii ''a[href*="messenger"]'', ascii ''a[href*="/profile/messenger"]'',
     ascii ''[data-marker*="messenger"]'', ascii ''[class*="messenger"]'']\<close>

text \<open>
  Then the direct addresses, in order: \<open>goto\<close> throws (\<open>None\<close>) or the page ends at
  some address.
\<close>

fun directNavigation :: "(jsstring \<Rightarrow> jsstring option) \<Rightarrow> jsstring list \<Rightarrow> bool" where
  "directNavigation goto [] = False"
| "directNavigation goto (address # rest) =
     (case goto address of
        None \<Rightarrow> directNavigation goto rest
      | Some finalUrl \<Rightarrow>
          if js_includes finalUrl (ascii ''messenger'') \<or> js_includes finalUrl (ascii ''message'')
          then True
          else directNavigation goto rest)"

definition messengerUrls :: "jsstring list" where
  "messengerUrls =
    [ascii ''https://www.avito.ru/profile/messenger'', ascii ''https://www.avito.ru/cabinet/messenger'',
     ascii ''https://www.avito.ru/messenger'']"

text \<open>
  What \<open>navigateToMessenger\<close> observes. \<open>navThrows\<close> is an error of a call that no
  inner \<open>try\<close> guards; the outer \<open>catch\<close> throws it again. \<open>navNow\<close> and \<open>navIso\<close>
  are the clock readings that go into the system message.
\<close>

record nav_view =
  links :: "jsstring \<Rightarrow> link list option"
  directGoto :: "jsstring \<Rightarrow> jsstring option"
  settledUrl :: jsstring
  navThrows :: "jsstring option"
  navNow :: nat
  navIso :: jsstring

definition navigateToMessenger :: "state \<Rightarrow> nav_view \<Rightarrow> jsstring + state" where
  "navigateToMessenger s v =
     (if page s = None then Inr s
      else case navThrows v of
        Some e \<Rightarrow> Inl e
      | None \<Rightarrow>
          if (clickMessengerLink (links v) messengerLinkSelectors
              \<or> directNavigation (directGoto v) messengerUrls)
             \<or> js_includes (settledUrl v) (ascii ''messenger'')
             \<or> js_includes (settledUrl v) (ascii ''message'')
          then Inr (addMessage
                 \<lparr>id_msg = ascii ''system_messenger_ready_'' @ dec (navNow v),
                  text_msg = messengerReadyText,
                  sender = systemSender,
                  phoneNumber = None,
                  timestamp = navIso v\<rparr> s)
          else Inr s)"

section \<open>Waiting for a manual login\<close>

text \<open>
  The loop \<open>while (!isLoggedIn && waitedTime < maxWaitTime)\<close>. Other handlers of the
  process run only while the loop is suspended in its sleep; the one that matters is a
  call of \<open>stopMonitoring\<close> (from the stop endpoint or a shutdown signal). A
  \<open>wait_event\<close> says what happens in one turn: whether \<open>stopMonitoring\<close> runs during
  the sleep (and whether its \<open>browser.close()\<close> throws), and what the check after the
  sleep sees. The sleep is \<open>this.page.waitForTimeout\<close>: with \<open>this.page\<close> being
  \<open>null\<close> the call raises a \<open>TypeError\<close>, outside the \<open>try\<close> of the loop body.
  The result is the error that leaves the waiting phase, if any: that \<open>TypeError\<close>, or
  the timeout error thrown after the loop.
\<close>

record wait_event =
  stopInvoked :: "bool option"
  authDuringWait :: auth_view

function manualWait :: "state \<Rightarrow> (nat \<Rightarrow> wait_event) \<Rightarrow> nat \<Rightarrow> jsstring option \<times> state" where
  "manualWait s events waitedTime =
     (if waitedTime < 300
      then (if page s = None then (Some nullPageError, s)
            else if checkIfLoggedIn
                     (case stopInvoked (events (waitedTime div 5)) of
                        None \<Rightarrow> s
                      | Some closeThrows \<Rightarrow> stopMonitoring s closeThrows)
                     (authDuringWait (events (waitedTime div 5)))
            then (None,
                  case stopInvoked (events (waitedTime div 5)) of
                    None \<Rightarrow> s
                  | Some closeThrows \<Rightarrow> stopMonitoring s closeThrows)
            else manualWait
                   (case stopInvoked (events (waitedTime div 5)) of
                      None \<Rightarrow> s
                    | Some closeThrows \<Rightarrow> stopMonitoring s closeThrows)
                   events (waitedTime + 5))
      else (Some manualTimeout, s))"
  by pat_completeness auto
termination
  by (relation "measure (\<lambda>(s, events, waitedTime). 300 - waitedTime)") auto

declare manualWait.simps [simp del]

section \<open>\<open>startMonitoring\<close>\<close>

text \<open>
  What \<open>startMonitoring\<close> observes: whether \<open>puppeteer.launch\<close>, \<open>newPage\<close> and the
  two attempts to load the landing page throw, the views of the calls it makes, the
  clock readings for the system message, and whether \<open>browser.close()\<close> throws should
  the \<open>catch\<close> run \<open>cleanup\<close>.
\<close>

record start_view =
  launch :: "jsstring option"
  newPage :: "jsstring option"
  gotoMain :: "jsstring option"
  gotoMainRetry :: "jsstring option"
  loginView :: login_view
  authAfterLogin :: auth_view
  authInitial :: auth_view
  waitEvents :: "nat \<Rightarrow> wait_event"
  navigation :: nav_view
  firstCheck :: page_view
  readyNow :: nat
  readyIso :: jsstring
  cleanupCloseThrows :: bool

text \<open>The outer \<open>catch\<close>: teardown, then a failure result.\<close>

definition startCatch :: "state \<Rightarrow> jsstring \<Rightarrow> bool \<Rightarrow> state \<times> login_result option" where
  "startCatch s e closeThrows =
     (cleanup s closeThrows, Some \<lparr>requiresSms = False, error = Some (messageOr e startError)\<rparr>)"

text \<open>
  Lines 196 to 235, reached once the user counts as logged in: navigate, set
  \<open>isRunning\<close>, start the interval, check once, publish the system message. (The
  listener that \<open>setupMessageListener\<close> registers in between changes no field; what
  it does when the page logs a text is part of the section on overlapping handlers.)
\<close>

definition beginMonitoring :: "state \<Rightarrow> start_view \<Rightarrow> state \<times> login_result option" where
  "beginMonitoring s v =
     (case navigateToMessenger s (navigation v) of
        Inl e \<Rightarrow> startCatch s e (cleanupCloseThrows v)
      | Inr s1 \<Rightarrow>
          (addMessage
             \<lparr>id_msg = ascii ''system_ready_'' @ dec (readyNow v),
              text_msg = readyText,
              sender = systemSender,
              phoneNumber = None,
              timestamp = readyIso v\<rparr>
             (checkForNewMessages (s1\<lparr>isRunning := True, messageCheckInterval := Some ()\<rparr>)
                (firstCheck v)),
           Some \<lparr>requiresSms = False, error = None\<rparr>))"

text \<open>\<open>phone && password\<close>: both given and not empty.\<close>

definition credentials :: "jsstring option \<Rightarrow> jsstring option \<Rightarrow> (jsstring \<times> jsstring) option" where
  "credentials phone password =
     (case phone of
        None \<Rightarrow> None
      | Some p \<Rightarrow>
          (case password of
             None \<Rightarrow> None
           | Some w \<Rightarrow> if truthy p \<and> truthy w then Some (p, w) else None))"

text \<open>
  Lines 56 to 85: the automatic login inside its own \<open>try\<close>. Each of the four failure
  exits is a \<open>return\<close> from \<open>startMonitoring\<close> with the state as it is. A result of
  \<open>login\<close> that is \<open>undefined\<close> makes \<open>loginResult.error\<close> raise a \<open>TypeError\<close>,
  which the inner \<open>catch\<close> turns into a result like any other error.
\<close>

definition automaticLogin ::
  "state \<Rightarrow> jsstring \<Rightarrow> jsstring \<Rightarrow> jsstring option \<Rightarrow> start_view \<Rightarrow> state \<times> login_result option" where
  "automaticLogin s phone password smsCode v =
     (case fst (login s phone password smsCode (loginView v)) of
        Inl e \<Rightarrow> (s, Some \<lparr>requiresSms = False, error = Some (messageOr e loginError)\<rparr>)
      | Inr None \<Rightarrow>
          (s, Some \<lparr>requiresSms = False, error = Some (messageOr undefinedError loginError)\<rparr>)
      | Inr (Some loginResult) \<Rightarrow>
          if given (error loginResult) then (s, Some loginResult)
          else if requiresSms loginResult then (s, Some loginResult)
          else if checkIfLoggedIn s (authAfterLogin v) then beginMonitoring s v
          else (s, Some \<lparr>requiresSms = False, error = Some notConfirmed\<rparr>))"

text \<open>
  Lines 86 to 194 without credentials: check once, open the login form (a block whose
  failures are all swallowed and which changes no field), then wait. The branch of
  line 174 needs credentials and a failed confirmation at once, and line 80 has
  returned by then; it is never entered.
\<close>

definition manualLogin :: "state \<Rightarrow> start_view \<Rightarrow> state \<times> login_result option" where
  "manualLogin s v =
     (if checkIfLoggedIn s (authInitial v) then beginMonitoring s v
      else case manualWait s (waitEvents v) 0 of
             (Some e, s1) \<Rightarrow> startCatch s1 e (cleanupCloseThrows v)
           | (None, s1) \<Rightarrow> beginMonitoring s1 v)"

text \<open>
  \<open>startMonitoring\<close>. The result \<open>None\<close> is the bare \<open>return;\<close> of the call on a
  running service: the promise resolves to \<open>undefined\<close>.
\<close>

definition startMonitoring ::
  "state \<Rightarrow> jsstring option \<Rightarrow> jsstring option \<Rightarrow> jsstring option \<Rightarrow> start_view
   \<Rightarrow> state \<times> login_result option" where
  "startMonitoring s phone password smsCode v =
     (if isRunning s then (s, None)
      else case launch v of
        Some e \<Rightarrow> startCatch s e (cleanupCloseThrows v)
      | None \<Rightarrow>
          (case newPage v of
             Some e \<Rightarrow>
               startCatch
                 (s\<lparr>browser := Some (launched s),
                    openBrowsers := insert (launched s) (openBrowsers s),
                    launched := Suc (launched s)\<rparr>)
                 e (cleanupCloseThrows v)
           | None \<Rightarrow>
               (case (case gotoMain v of None \<Rightarrow> None | Some first \<Rightarrow> gotoMainRetry v) of
                  Some e \<Rightarrow>
                    startCatch
                      (s\<lparr>browser := Some (launched s), page := Some (launched s),
                         openBrowsers := insert (launched s) (openBrowsers s),
                         launched := Suc (launched s)\<rparr>)
                      e (cleanupCloseThrows v)
                | None \<Rightarrow>
                    (case credentials phone password of
                       Some (p, w) \<Rightarrow>
                         automaticLogin
                           (s\<lparr>browser := Some (launched s), page := Some (launched s),
                              openBrowsers := insert (launched s) (openBrowsers s),
                              launched := Suc (launched s)\<rparr>)
                           p w smsCode v
                     | None \<Rightarrow>
                         manualLogin
                           (s\<lparr>browser := Some (launched s), page := Some (launched s),
                              openBrowsers := insert (launched s) (openBrowsers s),
                              launched := Suc (launched s)\<rparr>)
                           v))))"

section \<open>The command surface\<close>

text \<open>
  The handler of \<open>POST start\<close> in the controller. Reading \<open>result.error\<close> from an
  \<open>undefined\<close> result raises a \<open>TypeError\<close>, which the handler's \<open>catch\<close> reports as
  a failure with the error's message.
\<close>

record response =
  success :: bool
  error_response :: "jsstring option"
  requiresSms_response :: "bool option"
  message_response :: "jsstring option"

definition AppController_startMonitoring ::
  "state \<Rightarrow> jsstring option \<Rightarrow> jsstring option \<Rightarrow> jsstring option \<Rightarrow> start_view \<Rightarrow> state \<times> response" where
  "AppController_startMonitoring s phone password smsCode v =
     (case startMonitoring s phone password smsCode v of
        (s1, None) \<Rightarrow>
          (s1, \<lparr>success = False, error_response = Some undefinedError,
                requiresSms_response = None, message_response = None\<rparr>)
      | (s1, Some result) \<Rightarrow>
          if given (error result)
          then (s1, \<lparr>success = False, error_response = error result,
                     requiresSms_response = Some (requiresSms result), message_response = None\<rparr>)
          else if requiresSms result
          then (s1, \<lparr>success = False, error_response = None,
                     requiresSms_response = Some True, message_response = Some smsRequired\<rparr>)
          else (s1, \<lparr>success = True, error_response = None,
                     requiresSms_response = None, message_response = Some (ascii ''Monitoring started'')\<rparr>))"

section \<open>Handlers that overlap\<close>

text \<open>
  The service runs on one thread: a handler runs up to its next \<open>await\<close>, other
  handlers run while it is suspended there, and it goes on when the awaited call has
  settled. The poll and the stop are suspended at three calls: \<open>page.evaluate\<close> in
  \<open>checkForNewMessages\<close> (line 859) and in \<open>extractMessagesFromPage\<close> (line 985), and
  \<open>browser.close()\<close> in \<open>cleanup\<close> (line 1110). A \<open>system\<close> is the service together
  with what is suspended: the number of checks that wait for the first callback, the
  number that wait for the second, and the browsers whose \<open>close\<close> is awaited, oldest
  first. It also holds the pages on which \<open>setupMessageListener\<close> has registered its
  console listener; a page is named by the handle of its browser.
\<close>

record system =
  service :: state
  awaitingChats :: nat
  awaitingPreviews :: nat
  closing :: "handle list"
  listeners :: "handle set"

definition boot :: system where
  "boot = \<lparr>service = initial, awaitingChats = 0, awaitingPreviews = 0, closing = [], listeners = {}\<rparr>"

text \<open>
  \<open>checkForNewMessages\<close> up to its first \<open>await\<close>, lines 839 to 859; the argument is
  what \<open>page.url()\<close> answers.
\<close>

definition beginCheck :: "system \<Rightarrow> jsstring \<Rightarrow> system" where
  "beginCheck sys address =
     (if page (service sys) = None then sys
      else if \<not> isOnMessengerPage address then sys
      else sys\<lparr>awaitingChats := Suc (awaitingChats sys)\<rparr>)"

text \<open>
  The rest of \<open>checkForNewMessages\<close> once its callback has settled: the \<open>catch\<close> when
  it threw (\<open>None\<close>), else the loop of lines 944 to 965 over what it returned and the
  call of \<open>extractMessagesFromPage\<close>, which returns at once without a page and is
  otherwise suspended at its own callback. The loop reads \<open>processedMessages\<close> as it
  is at that moment; neither \<open>isRunning\<close> nor the page is looked at before it.
\<close>

definition resumeCheck :: "system \<Rightarrow> document option \<Rightarrow> system" where
  "resumeCheck sys answer =
     (case answer of
        None \<Rightarrow> sys
      | Some d \<Rightarrow>
          (let s1 = dedupLoop (foundMessages d) (service sys)
           in if page s1 = None then sys\<lparr>service := s1\<rparr>
              else sys\<lparr>service := s1, awaitingPreviews := Suc (awaitingPreviews sys)\<rparr>))"

text \<open>
  The rest of \<open>extractMessagesFromPage\<close> once its callback has settled: the \<open>catch\<close>,
  or the loop of lines 1069 to 1085.
\<close>

definition resumeExtract :: "system \<Rightarrow> preview_document option \<Rightarrow> system" where
  "resumeExtract sys answer =
     (case answer of
        None \<Rightarrow> sys
      | Some d \<Rightarrow> sys\<lparr>service := dedupLoop (foundPreviewMessages d) (service sys)\<rparr>)"

text \<open>
  What happens to the process, one event at a time.

  \<^item> \<open>StartCalled\<close>: a call of \<open>startMonitoring\<close>, taken as a whole as in the sections
    above (what overlaps it is part of its \<open>start_view\<close>). The last argument says
    whether the \<open>page.evaluate\<close> of \<open>setupMessageListener\<close> (line 812) throws; if it
    does not, a start that reaches line 199 registers the console listener on its page.
  \<^item> \<open>StopCalled\<close>: a call of \<open>stopMonitoring\<close> up to the \<open>await\<close> in \<open>cleanup\<close>: lines
    1093 to 1102, and \<open>browser.close()\<close> is called if there is a browser.
  \<^item> \<open>CloseSettles\<close>: the oldest awaited \<open>browser.close()\<close> returns, or throws (\<open>True\<close>);
    the rest of \<open>cleanup\<close> runs.
  \<^item> \<open>TimerFires\<close>: three seconds have passed; the interval timer, if there is one,
    runs the callback of lines 785 to 802. The argument is what \<open>page.url()\<close> answers.
  \<^item> \<open>ConsoleMessage\<close>: a page of an open browser logs a text; the listener of lines
    828 to 832, if that page has one, calls \<open>checkForNewMessages\<close> when the text
    contains \<open>NEW_MESSAGE\<close>. The last argument is what \<open>page.url()\<close> answers.
  \<^item> \<open>ChatsSettle\<close>, \<open>PreviewsSettle\<close>: the callback that one suspended check waits for
    returns what is given, or throws (\<open>None\<close>).
\<close>

datatype event =
    StartCalled "jsstring option" "jsstring option" "jsstring option" start_view bool
  | StopCalled
  | CloseSettles bool
  | TimerFires jsstring
  | ConsoleMessage handle jsstring jsstring
  | ChatsSettle "document option"
  | PreviewsSettle "preview_document option"

fun react :: "system \<Rightarrow> event \<Rightarrow> system" where
  "react sys (StartCalled phone password smsCode v setupThrows) =
     (let s1 = fst (startMonitoring (service sys) phone password smsCode v)
      in sys\<lparr>service := s1,
             listeners :=
               (if \<not> isRunning (service sys) \<and> isRunning s1 \<and> \<not> setupThrows
                then (case page s1 of None \<Rightarrow> listeners sys | Some p \<Rightarrow> insert p (listeners sys))
                else listeners sys)\<rparr>)"
| "react sys StopCalled =
     (let s1 = (service sys)\<lparr>isRunning := False, messageCheckInterval := None, processedMessages := {}\<rparr>
      in case browser s1 of
           None \<Rightarrow> sys\<lparr>service := s1\<rparr>
         | Some b \<Rightarrow> sys\<lparr>service := s1, closing := closing sys @ [b]\<rparr>)"
| "react sys (CloseSettles closeThrows) =
     (case closing sys of
        [] \<Rightarrow> sys
      | b # rest \<Rightarrow>
          if closeThrows then sys\<lparr>closing := rest\<rparr>
          else sys\<lparr>service := (service sys)\<lparr>browser := None, page := None,
                                             openBrowsers := openBrowsers (service sys) - {b}\<rparr>,
                   closing := rest\<rparr>)"
| "react sys (TimerFires address) =
     (if messageCheckInterval (service sys) = None then sys
      else if \<not> isRunning (service sys) \<or> page (service sys) = None then sys
      else beginCheck sys address)"
| "react sys (ConsoleMessage p logged address) =
     (if p \<in> listeners sys \<and> p \<in> openBrowsers (service sys)
         \<and> js_includes logged (ascii ''NEW_MESSAGE'')
      then beginCheck sys address
      else sys)"
| "react sys (ChatsSettle answer) =
     (if awaitingChats sys = 0 then sys
      else resumeCheck (sys\<lparr>awaitingChats := awaitingChats sys - 1\<rparr>) answer)"
| "react sys (PreviewsSettle answer) =
     (if awaitingPreviews sys = 0 then sys
      else resumeExtract (sys\<lparr>awaitingPreviews := awaitingPreviews sys - 1\<rparr>) answer)"

text \<open>The system after a series of events in a fresh process.\<close>

definition play :: "event list \<Rightarrow> system" where
  "play events = foldl react boot events"

section \<open>Notions used to state the login properties\<close>

text \<open>An action that types into the element found by the given selector.\<close>

definition typesInto :: "jsstring \<Rightarrow> action \<Rightarrow> bool" where
  "typesInto selector a \<longleftrightarrow>
     (case a of TypeText (Element found) t \<Rightarrow> found = selector | _ \<Rightarrow> False)"

text \<open>An action that changes the \<open>type\<close> attribute of some input.\<close>

definition changesInputType :: "action \<Rightarrow> bool" where
  "changesInputType a \<longleftrightarrow> (case a of SetInputType found t \<Rightarrow> True | _ \<Rightarrow> False)"

section \<open>Concrete pages and states\<close>

text \<open>
  A running service with one browser, a messenger page whose only bubble reads "hi" and
  whose body names the correspondent, and the same document under the landing page's
  address.
\<close>

definition runningState :: state where
  "runningState = \<lparr>browser = Some 0, page = Some 0, isRunning = True, messageCheckInterval = Some (),
                   processedMessages = {}, messages = [], openBrowsers = {0}, launched = 1\<rparr>"

definition hiNode :: node where
  "hiNode = \<lparr>textContent = ascii '' hi '', dateNow = 1700000000000,
             toISOString = ascii ''2023-11-14T22:13:20.000Z'', mathRandom = ascii ''0.5''\<rparr>"

definition hiDocument :: document where
  "hiDocument = \<lparr>chatItems = [], bodyText = defaultSender @ ascii '' hi '', messageContainers = [hiNode]\<rparr>"

definition hiPreviews :: preview_document where
  "hiPreviews = \<lparr>selected = (\<lambda>i. None), openChat = [hiNode]\<rparr>"

definition messengerView :: page_view where
  "messengerView = \<lparr>url = ascii ''https://www.avito.ru/profile/messenger'',
                    evaluateChats = Some hiDocument, evaluatePreviews = Some hiPreviews\<rparr>"

definition landingView :: page_view where
  "landingView = \<lparr>url = ascii ''https://www.avito.ru/'',
                  evaluateChats = Some hiDocument, evaluatePreviews = Some hiPreviews\<rparr>"

definition hiMessage :: message where
  "hiMessage = \<lparr>id_msg = ascii ''msg_0_1700000000000'', text_msg = ascii ''hi'', sender = defaultSender,
                phoneNumber = None, timestamp = ascii ''2023-11-14T22:13:20.000Z''\<rparr>"

definition hiMessage2 :: message where
  "hiMessage2 = \<lparr>id_msg = ascii ''msg_1700000000000_0.5'', text_msg = ascii ''hi'', sender = defaultSender,
                 phoneNumber = None, timestamp = ascii ''2023-11-14T22:13:20.000Z''\<rparr>"

text \<open>
  Two bubbles whose texts share their first 100 code units and differ in the last one,
  in a document that names the correspondent, and the messages that the heuristic pass
  makes of them.
\<close>

definition longText :: "16 word \<Rightarrow> jsstring" where
  "longText c = ascii ''aaaaaaaaaaaaaaaaaaaaaaaaaaaaaaaaaaaaaaaaaaaaaaaaaaaaaaaaaaaaaaaaaaaaaaaaaaaaaaaaaaaaaaaaaaaaaaaaaaaa'' @ [c]"

definition longNode :: "16 word \<Rightarrow> node" where
  "longNode c = \<lparr>textContent = longText c, dateNow = 1700000000000,
                 toISOString = ascii ''2023-11-14T22:13:20.000Z'', mathRandom = ascii ''0.5''\<rparr>"

definition longView :: page_view where
  "longView = \<lparr>url = ascii ''https://www.avito.ru/profile/messenger'',
               evaluateChats = Some \<lparr>chatItems = [], bodyText = defaultSender,
                                      messageContainers = [longNode 0x0058, longNode 0x0059]\<rparr>,
               evaluatePreviews = None\<rparr>"

definition longMessage :: "nat \<Rightarrow> 16 word \<Rightarrow> message" where
  "longMessage i c = \<lparr>id_msg = ascii ''msg_'' @ dec i @ ascii ''_1700000000000'', text_msg = longText c,
                      sender = defaultSender, phoneNumber = None,
                      timestamp = ascii ''2023-11-14T22:13:20.000Z''\<rparr>"

text \<open>
  A page on which nothing is found and nothing throws: no input matches any selector,
  no button, no code input, no error text, no sign of an authenticated user.
\<close>

definition loggedOut :: auth_view where
  "loggedOut = \<lparr>location = ascii ''https://www.avito.ru/#login?authsrc=h'', profileButton = False,
                messengerButton = False, userMenu = False, authButton = True, hasProfile = False,
                hasLogin = True, queryThrows = False\<rparr>"

definition loggedIn :: auth_view where
  "loggedIn = \<lparr>location = ascii ''https://www.avito.ru/profile'', profileButton = True,
               messengerButton = True, userMenu = True, authButton = False, hasProfile = True,
               hasLogin = False, queryThrows = False\<rparr>"

definition emptyLoginView :: login_view where
  "emptyLoginView =
     \<lparr>gotoLogin = None, gotoLoginRetry = None,
      urlAfterGoto = ascii ''https://www.avito.ru/#login?authsrc=h'',
      phoneProbes = (\<lambda>selector. NoMatch), nextButton = NoButton,
      passwordProbes = (\<lambda>selector. NoMatch),
      urlAfterPhone = ascii ''https://www.avito.ru/#login?authsrc=h'',
      codeAfterPhone = None, errorsAfterPhone = [], submitButton = NoButton,
      codeFirst = None, codeSecond = None, confirmButton = NoButton, errorsAfterCode = [],
      authAfterCode = loggedOut, codeStill = None, errorsAfterSubmit = [],
      authAfterSubmit = loggedOut, codeCheck = None, authRetry = loggedOut, errorsFinal = []\<rparr>"

definition idleNavigation :: nav_view where
  "idleNavigation = \<lparr>links = (\<lambda>selector. Some []), directGoto = (\<lambda>address. None),
                      settledUrl = ascii ''https://www.avito.ru/'', navThrows = None,
                      navNow = 1700000000000, navIso = ascii ''2023-11-14T22:13:20.000Z''\<rparr>"

text \<open>
  A start during which the browser and the landing page load, the login form shows no
  identifier input, and nobody logs in by hand or calls stop.
\<close>

definition noFormStart :: start_view where
  "noFormStart =
     \<lparr>launch = None, newPage = None, gotoMain = None, gotoMainRetry = None,
      loginView = emptyLoginView, authAfterLogin = loggedOut, authInitial = loggedOut,
      waitEvents = (\<lambda>turn. \<lparr>stopInvoked = None, authDuringWait = loggedOut\<rparr>),
      navigation = idleNavigation, firstCheck = messengerView,
      readyNow = 1700000000000, readyIso = ascii ''2023-11-14T22:13:20.000Z'',
      cleanupCloseThrows = False\<rparr>"

definition somePhone :: jsstring where
  "somePhone = ascii ''+7 (912) 345-67-89''"

definition somePassword :: jsstring where
  "somePassword = ascii ''secret''"

text \<open>
  A start without credentials in a browser that is already logged in and ends on the
  messenger page.
\<close>

definition loggedInStart :: start_view where
  "loggedInStart = noFormStart\<lparr>authInitial := loggedIn\<rparr>"

text \<open>
  The service after a launch: one browser, one page, not running.
\<close>

definition launchedState :: state where
  "launchedState = initial\<lparr>browser := Some 0, page := Some 0, openBrowsers := {0}, launched := 1\<rparr>"

text \<open>
  A login form on which the identifier input is found by its name and the secret input
  by its type, and which then shows a one-time-code input (marked \<open>sms-code/input\<close>)
  that is still there after a code was submitted; the user never counts as logged in.
\<close>

definition codeInput :: input_attrs where
  "codeInput = \<lparr>placeholder = [], dataMarker = ascii ''sms-code/input'', inputType = ascii ''text''\<rparr>"

definition codeLoginView :: login_view where
  \<open>codeLoginView = emptyLoginView
     \<lparr>phoneProbes := (\<lambda>selector. if selector = ascii ''input[name="login"]''
                                   then Match (Some True) else NoMatch),
      passwordProbes := (\<lambda>selector. if selector = ascii ''input[type="password"]''
                                      then Match (Some True) else NoMatch),
      codeFirst := Some codeInput, codeStill := Some codeInput, codeCheck := Some codeInput\<rparr>\<close>

text \<open>
  A manual wait during which nobody logs in and \<open>stopMonitoring\<close> is called once,
  during the first sleep, with a \<open>browser.close()\<close> that throws.
\<close>

definition failedStopEvents :: "nat \<Rightarrow> wait_event" where
  "failedStopEvents turn =
     \<lparr>stopInvoked = (if turn = 0 then Some True else None), authDuringWait = loggedOut\<rparr>"

text \<open>
  The same wait, except that the user logs in during the last turn, between 295 and 300
  seconds.
\<close>

definition lateLoginEvents :: "nat \<Rightarrow> wait_event" where
  "lateLoginEvents turn =
     \<lparr>stopInvoked = (if turn = 0 then Some True else None),
      authDuringWait = (if turn = 59 then loggedIn else loggedOut)\<rparr>"

definition lateLoginStart :: start_view where
  "lateLoginStart = noFormStart\<lparr>waitEvents := lateLoginEvents\<rparr>"

text \<open>
  The login form of \<open>codeLoginView\<close> with a one-time-code input that carries no
  \<open>data-marker\<close> and whose placeholder is the Russian word for "code", capitalised in
  the first view and in lower case in the second. In both the input is still there,
  unchanged, at every later check, no error text is shown, and the user never counts
  as logged in.
\<close>

definition capitalCodeInput :: input_attrs where
  "capitalCodeInput = \<lparr>placeholder = [0x041A, 0x043E, 0x0434], dataMarker = [], inputType = ascii ''text''\<rparr>"

definition lowerCodeInput :: input_attrs where
  "lowerCodeInput = \<lparr>placeholder = [0x043A, 0x043E, 0x0434], dataMarker = [], inputType = ascii ''text''\<rparr>"

definition capitalCodeView :: login_view where
  "capitalCodeView = codeLoginView
     \<lparr>codeFirst := Some capitalCodeInput, codeStill := Some capitalCodeInput,
      codeCheck := Some capitalCodeInput\<rparr>"

definition lowerCodeView :: login_view where
  "lowerCodeView = codeLoginView
     \<lparr>codeFirst := Some lowerCodeInput, codeStill := Some lowerCodeInput,
      codeCheck := Some lowerCodeInput\<rparr>"

definition capitalCodeStart :: start_view where
  "capitalCodeStart = noFormStart\<lparr>loginView := capitalCodeView\<rparr>"

text \<open>The system message that a start with the clock of \<open>noFormStart\<close> publishes last.\<close>

definition readyMessage :: message where
  "readyMessage = \<lparr>id_msg = ascii ''system_ready_1700000000000'', text_msg = readyText,
                   sender = systemSender, phoneNumber = None,
                   timestamp = ascii ''2023-11-14T22:13:20.000Z''\<rparr>"

text \<open>
  The messenger page before anything has arrived, and a start in a browser that is
  already logged in whose first check sees that page.
\<close>

definition quietView :: page_view where
  "quietView = \<lparr>url = ascii ''https://www.avito.ru/profile/messenger'',
                evaluateChats = Some \<lparr>chatItems = [], bodyText = [], messageContainers = []\<rparr>,
                evaluatePreviews = Some \<lparr>selected = (\<lambda>i. None), openChat = []\<rparr>\<rparr>"

definition quietStart :: start_view where
  "quietStart = loggedInStart\<lparr>firstCheck := quietView\<rparr>"

text \<open>
  A session started on the quiet page, with one timer tick, during which "hi" has
  arrived, and one stop. In \<open>overlappedStop\<close> the stop is called while the tick waits
  for its first callback: the callback, sent to the browser before the request to
  close, returns the document, then \<open>close\<close> returns, and the second callback of the
  tick fails in the closed browser. In \<open>orderlyStop\<close> the same events happen with the
  stop called after the tick has finished.
\<close>

definition overlappedStop :: "event list" where
  "overlappedStop =
     [StartCalled None None None quietStart False,
      TimerFires (url messengerView),
      StopCalled,
      ChatsSettle (Some hiDocument),
      CloseSettles False,
      PreviewsSettle None]"

definition orderlyStop :: "event list" where
  "orderlyStop =
     [StartCalled None None None quietStart False,
      TimerFires (url messengerView),
      ChatsSettle (Some hiDocument),
      PreviewsSettle None,
      StopCalled,
      CloseSettles False]"

text \<open>
  The same session with a stop and, while \<open>browser.close()\<close> is awaited, an
  occasion for a check: the page logs a text that contains \<open>NEW_MESSAGE\<close> in
  \<open>lateConsole\<close>, three seconds pass in \<open>lateTimer\<close>.
\<close>

definition lateConsole :: "event list" where
  "lateConsole =
     [StartCalled None None None quietStart False,
      StopCalled,
      ConsoleMessage 0 (ascii ''NEW_MESSAGE'') (url messengerView),
      ChatsSettle (Some hiDocument),
      CloseSettles False,
      PreviewsSettle None]"

definition lateTimer :: "event list" where
  "lateTimer =
     [StartCalled None None None quietStart False,
      StopCalled,
      TimerFires (url messengerView),
      ChatsSettle (Some hiDocument),
      CloseSettles False,
      PreviewsSettle None]"

text \<open>The start that follows: the browser is logged in and the page shows "hi".\<close>

definition nextStart :: event where
  "nextStart = StartCalled None None None loggedInStart False"

section \<open>Properties of the deduplication loop\<close>

lemma dedupLoop_frame:
  "browser (dedupLoop ms s) = browser s \<and> page (dedupLoop ms s) = page s
   \<and> isRunning (dedupLoop ms s) = isRunning s
   \<and> messageCheckInterval (dedupLoop ms s) = messageCheckInterval s
   \<and> openBrowsers (dedupLoop ms s) = openBrowsers s \<and> launched (dedupLoop ms s) = launched s"
  by (induction ms arbitrary: s) (simp_all add: addMessage_def)

lemma dedupLoop_messages:
  "messages (dedupLoop ms s) = messages s @ accepted (processedMessages s) ms"
  by (induction ms arbitrary: s) (simp_all add: addMessage_def)

lemma dedupLoop_processed:
  "processedMessages (dedupLoop ms s) = processedMessages s \<union> messageKey ` set (accepted (processedMessages s) ms)"
  by (induction ms arbitrary: s) (auto simp: addMessage_def)

lemma dedupLoop_append: "dedupLoop (xs @ ys) s = dedupLoop ys (dedupLoop xs s)"
  by (induction xs arbitrary: s) simp_all

lemma accepted_by_key:
  "filter (\<lambda>m. messageKey m = k) (accepted seen ms) =
     (if k \<in> seen then []
      else case List.find (\<lambda>m. messageKey m = k \<and> truthy (trim (text_msg m))) ms of
             None \<Rightarrow> [] | Some m \<Rightarrow> [m])"
proof (induction ms arbitrary: seen)
  case Nil
  show ?case by simp
next
  case (Cons m ms)
  show ?case
  proof (cases "messageKey m \<notin> seen \<and> truthy (trim (text_msg m))")
    case True
    then show ?thesis using Cons.IH [of "insert (messageKey m) seen"] by auto
  next
    case False
    then show ?thesis using Cons.IH [of seen] by auto
  qed
qed


lemma checkForNewMessages_extracted:
  "page s \<noteq> None \<Longrightarrow> checkForNewMessages s v = dedupLoop (extracted v) s"
  by (auto simp: checkForNewMessages_def extracted_def extractMessagesFromPage_def
      dedupLoop_frame dedupLoop_append split: option.splits)

lemma pollTicks_extracted:
  "isRunning s \<Longrightarrow> page s \<noteq> None \<Longrightarrow>
   foldl pollTick s vs = dedupLoop (concat (map extracted vs)) s"
proof (induction vs arbitrary: s)
  case Nil
  show ?case by simp
next
  case (Cons v vs)
  have step: "pollTick s v = dedupLoop (extracted v) s"
    using Cons.prems by (auto simp: pollTick_def checkForNewMessages_extracted)
  have "foldl pollTick (dedupLoop (extracted v) s) vs
        = dedupLoop (concat (map extracted vs)) (dedupLoop (extracted v) s)"
    using Cons.prems by (intro Cons.IH) (simp_all add: dedupLoop_frame)
  then show ?case by (simp add: step dedupLoop_append)
qed

lemmas evaluation = ascii_def trim_def truthy_def isSpace_def isDigit_def orElse_def lastLine_def
  targetNames_def defaultSender_def phonePatterns_def extractPhoneNumber_def matchesAny_def senderOf_def
  dec.simps

lemma pollTick_idle: "\<not> (isRunning s \<and> page s \<noteq> None) \<Longrightarrow> foldl pollTick s vs = s"
  by (induction vs) (auto simp: pollTick_def)

lemma published_by_key:
  "filter (\<lambda>x. messageKey x = k) (drop (length (messages s)) (messages (foldl pollTick s vs))) =
     (if isRunning s \<and> page s \<noteq> None \<and> k \<notin> processedMessages s
      then case List.find (\<lambda>m. messageKey m = k \<and> truthy (trim (text_msg m))) (concat (map extracted vs)) of
             None \<Rightarrow> [] | Some m \<Rightarrow> [m]
      else [])"
proof (cases "isRunning s \<and> page s \<noteq> None")
  case True
  then have "foldl pollTick s vs = dedupLoop (concat (map extracted vs)) s"
    by (simp add: pollTicks_extracted)
  then show ?thesis using True
    by (simp add: dedupLoop_messages accepted_by_key)
next
  case False
  then have "foldl pollTick s vs = s" by (rule pollTick_idle)
  then show ?thesis using False by auto
qed

lemma foundMessages_hiDocument: "foundMessages hiDocument = [hiMessage]"
  by (simp add: evaluation hiDocument_def hiMessage_def hiNode_def foundMessages_def bodyMessages_def)

lemma foundPreviewMessages_hiPreviews: "foundPreviewMessages hiPreviews = [hiMessage2]"
  by (simp add: evaluation hiPreviews_def hiMessage2_def hiNode_def foundPreviewMessages_def
      openChatMessages_def upt_rec)

lemma gate_messengerView: "isOnMessengerPage (url messengerView)"
  by (simp add: isOnMessengerPage_def messengerView_def ascii_def)

lemma extracted_messengerView: "extracted messengerView = [hiMessage, hiMessage2]"
  using gate_messengerView
  by (simp add: extracted_def foundMessages_hiDocument foundPreviewMessages_hiPreviews messengerView_def)

lemma key_hiMessage2: "messageKey hiMessage2 = messageKey hiMessage"
  by (simp add: messageKey_def hiMessage_def hiMessage2_def)

lemma nonblank_hiMessage: "truthy (trim (text_msg hiMessage))"
  by (simp add: evaluation hiMessage_def)

section \<open>Properties of the lifecycle\<close>



lemma loggedOut_never: "\<not> checkIfLoggedIn st loggedOut"
  by (simp add: checkIfLoggedIn_def loggedOut_def isAuthenticatedUrl_def ascii_def)

text \<open>
  Handlers that do not overlap: a stop whose \<open>close\<close> settles before anything else
  happens is \<open>stopMonitoring\<close>, and a firing of the timer whose callbacks settle
  before anything else happens is \<open>pollTick\<close>.
\<close>

lemma stop_whole:
  assumes "closing sys = []"
  shows "service (react (react sys StopCalled) (CloseSettles closeThrows))
           = stopMonitoring (service sys) closeThrows"
  using assms by (simp add: stopMonitoring_def cleanup_def Let_def split: option.splits)

lemma tick_whole:
  assumes "messageCheckInterval (service sys) \<noteq> None"
    and "awaitingChats sys = 0" and "awaitingPreviews sys = 0"
  shows "service (foldl react sys [TimerFires (url v), ChatsSettle (evaluateChats v),
                                    PreviewsSettle (evaluatePreviews v)])
           = pollTick (service sys) v"
  using assms
  by (auto simp: pollTick_def checkForNewMessages_def extractMessagesFromPage_def beginCheck_def
      resumeCheck_def resumeExtract_def Let_def dedupLoop_frame split: option.splits)

text \<open>
  Between two stops the set of remembered keys only grows: no event other than a call
  of \<open>stopMonitoring\<close> (or of \<open>startMonitoring\<close>, during whose wait a stop may be
  called) removes a key.
\<close>

lemma keys_grow:
  "processedMessages (service sys) \<subseteq> processedMessages (service (react sys (CloseSettles closeThrows)))"
  "processedMessages (service sys) \<subseteq> processedMessages (service (react sys (TimerFires address)))"
  "processedMessages (service sys) \<subseteq> processedMessages (service (react sys (ConsoleMessage p logged address)))"
  "processedMessages (service sys) \<subseteq> processedMessages (service (react sys (ChatsSettle chats)))"
  "processedMessages (service sys) \<subseteq> processedMessages (service (react sys (PreviewsSettle previews)))"
  by (auto simp: beginCheck_def resumeCheck_def resumeExtract_def Let_def dedupLoop_processed
      split: option.splits list.splits)



text \<open>
  C7. Two messages of one sender whose texts agree on the first 100 code units have the
  same dedup key, whatever follows; and of two different messages with that key at most
  one is among the messages that a series of polls adds to the ledger.
\<close>

theorem dedup_key_collision:
  assumes "sender a = sender b" and "take 100 (text_msg a) = take 100 (text_msg b)"
  shows "messageKey a = messageKey b
         \<and> (a \<noteq> b \<longrightarrow>
             \<not> (a \<in> set (drop (length (messages s)) (messages (foldl pollTick s vs)))
                \<and> b \<in> set (drop (length (messages s)) (messages (foldl pollTick s vs)))))"
proof -
  let ?pub = "drop (length (messages s)) (messages (foldl pollTick s vs))"
  let ?same = "filter (\<lambda>x. messageKey x = messageKey a) ?pub"
  have key: "messageKey a = messageKey b"
    using assms by (simp add: messageKey_def)
  have one: "?same = [] \<or> (\<exists>c. ?same = [c])"
    unfolding published_by_key by (simp split: option.splits)
  have "a = b" if "a \<in> set ?pub" and "b \<in> set ?pub"
  proof -
    have "a \<in> set ?same" and "b \<in> set ?same"
      using that key by simp_all
    then show ?thesis using one by (metis empty_iff empty_set set_ConsD)
  qed
  with key show ?thesis by blast
qed

lemma extracted_longView: "extracted longView = [longMessage 0 0x0058, longMessage 1 0x0059]"
  by (simp add: evaluation extracted_def isOnMessengerPage_def longView_def longMessage_def
      longNode_def foundMessages_def bodyMessages_def longText_def)

theorem dedup_key_collision_witness:
  "sender (longMessage 0 0x0058) = sender (longMessage 1 0x0059)
   \<and> take 100 (text_msg (longMessage 0 0x0058)) = take 100 (text_msg (longMessage 1 0x0059))
   \<and> text_msg (longMessage 0 0x0058) \<noteq> text_msg (longMessage 1 0x0059)
   \<and> extracted longView = [longMessage 0 0x0058, longMessage 1 0x0059]
   \<and> messageKey (longMessage 0 0x0058) = messageKey (longMessage 1 0x0059)
   \<and> \<not> (longMessage 0 0x0058 \<in> set (drop (length (messages runningState))
                                          (messages (foldl pollTick runningState [longView])))
         \<and> longMessage 1 0x0059 \<in> set (drop (length (messages runningState))
                                          (messages (foldl pollTick runningState [longView]))))"
proof -
  have pre: "sender (longMessage 0 0x0058) = sender (longMessage 1 0x0059)
      \<and> take 100 (text_msg (longMessage 0 0x0058)) = take 100 (text_msg (longMessage 1 0x0059))
      \<and> text_msg (longMessage 0 0x0058) \<noteq> text_msg (longMessage 1 0x0059)"
    by (simp add: longMessage_def longText_def ascii_def)
  then have "longMessage 0 0x0058 \<noteq> longMessage 1 0x0059"
    by auto
  then show ?thesis
    using dedup_key_collision [of "longMessage 0 0x0058" "longMessage 1 0x0059" runningState "[longView]"]
      pre extracted_longView
    by blast
qed

text \<open>
  C4. When the address of the page contains none of the four markers (\<open>messenger\<close>,
  \<open>message\<close>, \<open>/profile/\<close>, \<open>/cabinet/\<close>), a poll tick leaves the whole state as it
  was: nothing is added to the ledger and \<open>processedMessages\<close> is unchanged, whatever
  the document holds; neither extraction pass contributes a message.
\<close>

theorem extraction_gate:
  assumes "\<not> isOnMessengerPage (url v)"
  shows "pollTick s v = s \<and> checkForNewMessages s v = s \<and> extracted v = []"
  using assms by (simp add: pollTick_def checkForNewMessages_def extracted_def)

theorem extraction_gate_witness:
  "\<not> isOnMessengerPage (url landingView)
   \<and> matchesAny (bodyText hiDocument) \<and> evaluateChats landingView = Some hiDocument
   \<and> foundMessages hiDocument \<noteq> []
   \<and> pollTick runningState landingView = runningState
   \<and> extracted landingView = []"
proof -
  have gate: "\<not> isOnMessengerPage (url landingView)"
    by (simp add: isOnMessengerPage_def landingView_def ascii_def)
  have body: "matchesAny (bodyText hiDocument)"
    by (simp add: evaluation hiDocument_def)
  show ?thesis
    using extraction_gate [OF gate, of runningState] gate body
    by (simp add: landingView_def foundMessages_hiDocument)
qed

section \<open>Start, stop and the remembered keys\<close>

lemma dec_ready: "dec 1700000000000 = ascii ''1700000000000''"
  by (simp add: dec.simps ascii_def)

lemma start_loggedIn:
  assumes "\<not> isRunning s"
  shows "fst (startMonitoring s None None None (loggedInStart\<lparr>firstCheck := w\<rparr>)) =
     addMessage readyMessage
       (dedupLoop (extracted w)
          (s\<lparr>browser := Some (launched s), page := Some (launched s),
             openBrowsers := insert (launched s) (openBrowsers s), launched := Suc (launched s),
             isRunning := True, messageCheckInterval := Some ()\<rparr>))"
proof -
  let ?s2 = "s\<lparr>browser := Some (launched s), page := Some (launched s),
               openBrowsers := insert (launched s) (openBrowsers s), launched := Suc (launched s)\<rparr>"
  have a: "checkIfLoggedIn ?s2 loggedIn"
    by (simp add: checkIfLoggedIn_def loggedIn_def isAuthenticatedUrl_def ascii_def)
  have n: "navigateToMessenger ?s2 idleNavigation = Inr ?s2"
    by (simp add: navigateToMessenger_def idleNavigation_def messengerLinkSelectors_def
        messengerUrls_def ascii_def)
  have c: "checkForNewMessages (?s2\<lparr>isRunning := True, messageCheckInterval := Some ()\<rparr>) w
           = dedupLoop (extracted w) (?s2\<lparr>isRunning := True, messageCheckInterval := Some ()\<rparr>)"
    by (simp add: checkForNewMessages_extracted)
  have "fst (beginMonitoring ?s2 (loggedInStart\<lparr>firstCheck := w\<rparr>)) =
      addMessage readyMessage
        (dedupLoop (extracted w) (?s2\<lparr>isRunning := True, messageCheckInterval := Some ()\<rparr>))"
    using n c
    by (simp add: beginMonitoring_def loggedInStart_def noFormStart_def readyMessage_def dec_ready
        ascii_def)
  then show ?thesis
    using a assms
    by (simp add: startMonitoring_def manualLogin_def credentials_def loggedInStart_def noFormStart_def)
qed

lemma loggedInStart_firstCheck: "loggedInStart\<lparr>firstCheck := messengerView\<rparr> = loggedInStart"
  by (simp add: loggedInStart_def noFormStart_def)

lemma extracted_quietView: "extracted quietView = []"
  by (simp add: extracted_def quietView_def isOnMessengerPage_def ascii_def foundMessages_def
      bodyMessages_def chatMessages_def foundPreviewMessages_def openChatMessages_def matchesAny_def
      targetNames_def upt_rec)

lemma react_quietStart:
  "react boot (StartCalled None None None quietStart False) =
     \<lparr>service = \<lparr>browser = Some 0, page = Some 0, isRunning = True, messageCheckInterval = Some (),
                  processedMessages = {}, messages = [readyMessage], openBrowsers = {0}, launched = 1\<rparr>,
      awaitingChats = 0, awaitingPreviews = 0, closing = [], listeners = {0}\<rparr>"
  by (simp add: boot_def initial_def quietStart_def start_loggedIn extracted_quietView addMessage_def)

lemma play_overlappedStop:
  "play overlappedStop =
     \<lparr>service = \<lparr>browser = None, page = None, isRunning = False, messageCheckInterval = None,
                  processedMessages = {messageKey hiMessage}, messages = [readyMessage, hiMessage],
                  openBrowsers = {}, launched = 1\<rparr>,
      awaitingChats = 0, awaitingPreviews = 0, closing = [], listeners = {0}\<rparr>"
  unfolding play_def overlappedStop_def foldl.simps react_quietStart
  using gate_messengerView nonblank_hiMessage
  by (simp add: beginCheck_def resumeCheck_def resumeExtract_def foundMessages_hiDocument
      addMessage_def Let_def)

lemma play_orderlyStop:
  "play orderlyStop =
     \<lparr>service = \<lparr>browser = None, page = None, isRunning = False, messageCheckInterval = None,
                  processedMessages = {}, messages = [readyMessage, hiMessage],
                  openBrowsers = {}, launched = 1\<rparr>,
      awaitingChats = 0, awaitingPreviews = 0, closing = [], listeners = {0}\<rparr>"
  unfolding play_def orderlyStop_def foldl.simps react_quietStart
  using gate_messengerView nonblank_hiMessage
  by (simp add: beginCheck_def resumeCheck_def resumeExtract_def foundMessages_hiDocument
      addMessage_def Let_def)

lemma play_lateConsole:
  "play lateConsole =
     \<lparr>service = \<lparr>browser = None, page = None, isRunning = False, messageCheckInterval = None,
                  processedMessages = {messageKey hiMessage}, messages = [readyMessage, hiMessage],
                  openBrowsers = {}, launched = 1\<rparr>,
      awaitingChats = 0, awaitingPreviews = 0, closing = [], listeners = {0}\<rparr>"
  unfolding play_def lateConsole_def foldl.simps react_quietStart
  using gate_messengerView nonblank_hiMessage
  by (simp add: beginCheck_def resumeCheck_def resumeExtract_def foundMessages_hiDocument
      addMessage_def Let_def ascii_def)

lemma play_lateTimer:
  "play lateTimer =
     \<lparr>service = \<lparr>browser = None, page = None, isRunning = False, messageCheckInterval = None,
                  processedMessages = {}, messages = [readyMessage],
                  openBrowsers = {}, launched = 1\<rparr>,
      awaitingChats = 0, awaitingPreviews = 0, closing = [], listeners = {0}\<rparr>"
  unfolding play_def lateTimer_def foldl.simps react_quietStart
  by simp

lemma play_stopCalled:
  "play [StartCalled None None None quietStart False, TimerFires (url messengerView), StopCalled] =
     \<lparr>service = \<lparr>browser = Some 0, page = Some 0, isRunning = False, messageCheckInterval = None,
                  processedMessages = {}, messages = [readyMessage],
                  openBrowsers = {0}, launched = 1\<rparr>,
      awaitingChats = 1, awaitingPreviews = 0, closing = [0], listeners = {0}\<rparr>"
  unfolding play_def foldl.simps react_quietStart
  using gate_messengerView
  by (simp add: beginCheck_def)

lemma nextStart_stale:
  "messages (service (react (play overlappedStop) nextStart)) = [readyMessage, hiMessage, readyMessage]"
  using start_loggedIn [where w = messengerView] nonblank_hiMessage
  by (simp add: play_overlappedStop nextStart_def loggedInStart_firstCheck extracted_messengerView
      key_hiMessage2 addMessage_def)

lemma nextStart_clean:
  "messages (service (react (play orderlyStop) nextStart))
     = [readyMessage, hiMessage, hiMessage, readyMessage]"
  using start_loggedIn [where w = messengerView] nonblank_hiMessage
  by (simp add: play_orderlyStop nextStart_def loggedInStart_firstCheck extracted_messengerView
      key_hiMessage2 addMessage_def)

text \<open>
  C5. The set of remembered keys is to be empty after each stop and when the next
  start begins to poll. A stop that is called while a poll tick waits for its first
  callback defeats that (\<open>overlappedStop\<close>). \<open>stopMonitoring\<close> clears the set, with
  the tick still suspended, and asks the browser to close. The callback of the tick
  then returns, and the loop of the tick, which does not ask again whether the service
  is running, puts the key of "hi" into the cleared set and publishes "hi". Once the
  stop has returned (not running, no browser, nothing suspended) the set holds that
  key. \<open>startMonitoring\<close> never clears the set and does not touch it before its
  first poll, the check of line 216; so the next start begins to poll with the key,
  and that check drops the "hi" that the page shows. After the same events in an
  orderly sequence (\<open>orderlyStop\<close>) the set is empty and the next start forwards
  it. A check that the console listener requests after the stop (\<open>lateConsole\<close>)
  fills the cleared set in the same way. The timer requests none there
  (\<open>lateTimer\<close>): its interval is cleared, and its callback returns at once when the
  service is not running, a test that the listener does not make.
\<close>

theorem stop_during_check_leaves_keys:
  "processedMessages
     (service (play [StartCalled None None None quietStart False, TimerFires (url messengerView),
                     StopCalled])) = {}
   \<and> awaitingChats
       (play [StartCalled None None None quietStart False, TimerFires (url messengerView),
              StopCalled]) = 1
   \<and> isRunning (service (play overlappedStop)) = False
   \<and> browser (service (play overlappedStop)) = None
   \<and> awaitingChats (play overlappedStop) = 0
   \<and> awaitingPreviews (play overlappedStop) = 0
   \<and> closing (play overlappedStop) = []
   \<and> processedMessages (service (play overlappedStop)) = {messageKey hiMessage}
   \<and> messages (service (play overlappedStop)) = [readyMessage, hiMessage]
   \<and> messages (service (react (play overlappedStop) nextStart))
       = [readyMessage, hiMessage, readyMessage]
   \<and> processedMessages (service (play orderlyStop)) = {}
   \<and> messages (service (play orderlyStop)) = [readyMessage, hiMessage]
   \<and> messages (service (react (play orderlyStop) nextStart))
       = [readyMessage, hiMessage, hiMessage, readyMessage]
   \<and> isRunning (service (play lateConsole)) = False
   \<and> processedMessages (service (play lateConsole)) = {messageKey hiMessage}
   \<and> processedMessages (service (play lateTimer)) = {}"
  using nextStart_stale nextStart_clean
  by (simp add: play_stopCalled play_overlappedStop play_orderlyStop play_lateConsole play_lateTimer)






lemma login_noForm:
  "page s \<noteq> None \<Longrightarrow>
   fst (login s p w c emptyLoginView) = Inr (Some \<lparr>requiresSms = False, error = Some phoneNotFound\<rparr>)"
  by (auto simp: login_def loginSteps_def loginForm_def emptyLoginView_def isAuthenticatedUrl_def ascii_def
      phoneSelectors_def messageOr_def truthy_def phoneNotFound_def)

lemma automaticLogin_failed:
  "fst (login s p w c (loginView v)) = Inr (Some r) \<Longrightarrow> given (error r) \<Longrightarrow>
   automaticLogin s p w c v = (s, Some r)"
  by (simp add: automaticLogin_def)

lemma noFormStart_fails:
  assumes "\<not> isRunning s"
  shows "startMonitoring s (Some somePhone) (Some somePassword) None noFormStart =
     (s\<lparr>browser := Some (launched s), page := Some (launched s),
        openBrowsers := insert (launched s) (openBrowsers s), launched := Suc (launched s)\<rparr>,
      Some \<lparr>requiresSms = False, error = Some phoneNotFound\<rparr>)"
  using assms
  by (simp add: startMonitoring_def noFormStart_def credentials_def somePhone_def
      somePassword_def truthy_def ascii_def automaticLogin_def login_noForm given_def phoneNotFound_def)

text \<open>
  C2, evaluated. A fresh service is started with credentials on a page whose login form
  shows no identifier input, so \<open>login\<close> reports an error. \<open>startMonitoring\<close> returns
  that failure and leaves \<open>isRunning\<close> false, but it runs no teardown: browser and page
  handle are still set, the browser is still open, and the status says so. A second
  start of the same kind launches a second browser beside the first.
\<close>

theorem failed_login_keeps_browser:
  "startMonitoring initial (Some somePhone) (Some somePassword) None noFormStart =
     (initial\<lparr>browser := Some 0, page := Some 0, openBrowsers := {0}, launched := 1\<rparr>,
      Some \<lparr>requiresSms = False, error = Some phoneNotFound\<rparr>)
   \<and> getStatus (fst (startMonitoring initial (Some somePhone) (Some somePassword) None noFormStart))
        (ascii ''https://www.avito.ru/#login?authsrc=h'') =
       \<lparr>isRunning_status = False, browserOpen = True,
        currentUrl = Some (ascii ''https://www.avito.ru/#login?authsrc=h''),
        processedMessagesCount = 0\<rparr>
   \<and> openBrowsers (fst (startMonitoring
        (fst (startMonitoring initial (Some somePhone) (Some somePassword) None noFormStart))
        (Some somePhone) (Some somePassword) None noFormStart)) = {0, 1}"
proof -
  have first: "startMonitoring initial (Some somePhone) (Some somePassword) None noFormStart =
     (initial\<lparr>browser := Some 0, page := Some 0, openBrowsers := {0}, launched := 1\<rparr>,
      Some \<lparr>requiresSms = False, error = Some phoneNotFound\<rparr>)"
    using noFormStart_fails [of initial] by (simp add: initial_def)
  have second: "openBrowsers (fst (startMonitoring
        (initial\<lparr>browser := Some 0, page := Some 0, openBrowsers := {0}, launched := 1\<rparr>)
        (Some somePhone) (Some somePassword) None noFormStart)) = {0, 1}"
    using noFormStart_fails [of "initial\<lparr>browser := Some 0, page := Some 0, openBrowsers := {0}, launched := 1\<rparr>"]
    by (auto simp: initial_def)
  have status: "getStatus (initial\<lparr>browser := Some 0, page := Some 0, openBrowsers := {0}, launched := 1\<rparr>)
        (ascii ''https://www.avito.ru/#login?authsrc=h'') =
       \<lparr>isRunning_status = False, browserOpen = True,
        currentUrl = Some (ascii ''https://www.avito.ru/#login?authsrc=h''),
        processedMessagesCount = 0\<rparr>"
    by (simp add: getStatus_def initial_def)
  show ?thesis
    unfolding first fst_conv using second status by simp
qed

text \<open>
  C3, evaluated. On a running service \<open>startMonitoring\<close> changes nothing and launches
  nothing, but it resolves to \<open>undefined\<close>; the controller reads \<open>result.error\<close> from
  it, and its \<open>catch\<close> answers with \<open>success = false\<close> and the message of the
  \<open>TypeError\<close>, whatever the request body holds.
\<close>

theorem start_while_running:
  "AppController_startMonitoring runningState phone password smsCode v =
     (runningState, \<lparr>success = False, error_response = Some undefinedError,
                     requiresSms_response = None, message_response = None\<rparr>)"
  by (simp add: AppController_startMonitoring_def startMonitoring_def runningState_def)

section \<open>The manual wait and a concurrent stop\<close>

lemma stopMonitoring_keeps_page: "page (stopMonitoring s True) = page s"
  by (simp add: stopMonitoring_def cleanup_def split: option.splits)

lemma manualWait_runs_out:
  assumes "page s \<noteq> None"
    and "\<forall>n. stopInvoked (events n) \<noteq> Some False"
    and "\<forall>n st. \<not> checkIfLoggedIn st (authDuringWait (events n))"
  shows "fst (manualWait s events waitedTime) = Some manualTimeout"
  using assms
proof (induction s events waitedTime rule: manualWait.induct)
  case (1 s events waitedTime)
  let ?s = "case stopInvoked (events (waitedTime div 5)) of None \<Rightarrow> s
            | Some closeThrows \<Rightarrow> stopMonitoring s closeThrows"
  show ?case
  proof (cases "waitedTime < 300")
    case False
    then show ?thesis by (simp add: manualWait.simps)
  next
    case True
    have page: "page ?s \<noteq> None"
    proof (cases "stopInvoked (events (waitedTime div 5))")
      case None
      then show ?thesis using "1.prems"(1) by simp
    next
      case (Some c)
      then have "c" using "1.prems"(2) by (cases c) auto
      then show ?thesis using Some "1.prems"(1) by (simp add: stopMonitoring_keeps_page)
    qed
    have no: "\<not> checkIfLoggedIn ?s (authDuringWait (events (waitedTime div 5)))"
      using "1.prems"(3) by simp
    have "manualWait s events waitedTime = manualWait ?s events (waitedTime + 5)"
      using True "1.prems"(1) no by (subst manualWait.simps) auto
    then show ?thesis
      using "1.IH" [OF True "1.prems"(1) no page "1.prems"(2,3)] by simp
  qed
qed

lemma manualWait_stopped:
  assumes "page s \<noteq> None" and "browser s \<noteq> None" and "waitedTime < 300"
    and "stopInvoked (events (waitedTime div 5)) = Some False"
  shows "manualWait s events waitedTime =
           (Some (if waitedTime + 5 < 300 then nullPageError else manualTimeout), stopMonitoring s False)"
proof -
  have gone: "page (stopMonitoring s False) = None"
    using assms(2) by (auto simp: stopMonitoring_def cleanup_def split: option.splits)
  then have no: "\<not> checkIfLoggedIn (stopMonitoring s False) a" for a
    by (simp add: checkIfLoggedIn_def)
  have "manualWait s events waitedTime = manualWait (stopMonitoring s False) events (waitedTime + 5)"
    using assms no by (subst manualWait.simps) auto
  also have "\<dots> = (Some (if waitedTime + 5 < 300 then nullPageError else manualTimeout), stopMonitoring s False)"
    using gone by (subst manualWait.simps) simp
  finally show ?thesis .
qed

lemma truthy_nullPageError: "truthy nullPageError"
  by (simp add: truthy_def nullPageError_def ascii_def)

text \<open>
  C9, as the source has it. The waiting loop consults no cancellation flag; a call of
  \<open>stopMonitoring\<close> during a sleep matters only through the page handle. If its
  \<open>browser.close()\<close> succeeds, \<open>this.page\<close> is \<open>null\<close> afterwards: the check of that
  turn fails and the sleep of the next turn raises a \<open>TypeError\<close> (in the last turn
  the loop ends with the timeout error instead), so the wait ends at once and, when the
  stop came in the first turn, \<open>startMonitoring\<close> reports that error as a failure,
  with the service torn down. If no \<open>close\<close> ever succeeds and no check finds the user
  logged in, the loop runs until 300 seconds are waited and ends with the timeout error.
\<close>

theorem manual_wait_cancellation:
  "(page s \<noteq> None \<and> browser s \<noteq> None \<and> waitedTime < 300
      \<and> stopInvoked (events (waitedTime div 5)) = Some False
      \<longrightarrow> manualWait s events waitedTime =
            (Some (if waitedTime + 5 < 300 then nullPageError else manualTimeout), stopMonitoring s False))
   \<and> (page s \<noteq> None \<and> browser s \<noteq> None \<and> \<not> checkIfLoggedIn s (authInitial v)
      \<and> stopInvoked (waitEvents v 0) = Some False
      \<longrightarrow> manualLogin s v =
            (stopMonitoring s False, Some \<lparr>requiresSms = False, error = Some nullPageError\<rparr>))
   \<and> (page s \<noteq> None \<and> (\<forall>n. stopInvoked (events n) \<noteq> Some False)
      \<and> (\<forall>n st. \<not> checkIfLoggedIn st (authDuringWait (events n)))
      \<longrightarrow> fst (manualWait s events waitedTime) = Some manualTimeout)"
proof -
  have "manualLogin s v = (stopMonitoring s False, Some \<lparr>requiresSms = False, error = Some nullPageError\<rparr>)"
    if "page s \<noteq> None" "browser s \<noteq> None" "\<not> checkIfLoggedIn s (authInitial v)"
      "stopInvoked (waitEvents v 0) = Some False"
  proof -
    have w: "manualWait s (waitEvents v) 0 = (Some nullPageError, stopMonitoring s False)"
      using manualWait_stopped [of s 0 "waitEvents v"] that by simp
    have "browser (stopMonitoring s False) = None"
      by (simp add: stopMonitoring_def cleanup_def split: option.splits)
    then have "cleanup (stopMonitoring s False) c = stopMonitoring s False" for c
      by (simp add: cleanup_def)
    then show ?thesis
      using that(3) w truthy_nullPageError by (simp add: manualLogin_def startCatch_def messageOr_def)
  qed
  then show ?thesis
    using manualWait_stopped [of s waitedTime events] manualWait_runs_out [of s events waitedTime]
    by blast
qed

lemma loggedIn_always: "page st \<noteq> None \<Longrightarrow> checkIfLoggedIn st loggedIn"
  by (simp add: checkIfLoggedIn_def loggedIn_def isAuthenticatedUrl_def ascii_def)

lemma stop_launched: "stopMonitoring launchedState True = launchedState"
  by (simp add: stopMonitoring_def cleanup_def launchedState_def initial_def)

lemma page_launched: "page launchedState \<noteq> None"
  by (simp add: launchedState_def)

lemma manualWait_lateLogin: "manualWait launchedState lateLoginEvents 0 = (None, launchedState)"
  by (simp add: manualWait.simps lateLoginEvents_def loggedOut_never loggedIn_always stop_launched
      page_launched)

lemma beginMonitoring_running:
  assumes "page s \<noteq> None" and "navigation v = idleNavigation"
  shows "isRunning (fst (beginMonitoring s v))"
proof -
  have n: "navigateToMessenger s idleNavigation = Inr s"
    using assms(1)
    by (auto simp: navigateToMessenger_def idleNavigation_def messengerLinkSelectors_def
        messengerUrls_def ascii_def)
  have c: "checkForNewMessages (s\<lparr>isRunning := True, messageCheckInterval := Some ()\<rparr>) (firstCheck v)
           = dedupLoop (extracted (firstCheck v)) (s\<lparr>isRunning := True, messageCheckInterval := Some ()\<rparr>)"
    using assms(1) by (simp add: checkForNewMessages_extracted)
  show ?thesis
    using n c assms(2) by (simp add: beginMonitoring_def addMessage_def dedupLoop_frame)
qed

text \<open>
  C9 as stated fails: \<open>stopMonitoring\<close> is called during the first sleep, its
  \<open>browser.close()\<close> throws, and the loop goes on until it ends with the timeout
  error, which is thrown only once \<open>waitedTime\<close> has reached 300. That the loop is
  still polling at the end shows in the second run: when the user logs in during the
  last turn, the wait ends well and the start that was to be cancelled goes on to
  monitor.
\<close>

theorem manual_wait_cancellation_counterexample:
  "stopInvoked (failedStopEvents 0) = Some True
   \<and> fst (manualWait launchedState failedStopEvents 0) = Some manualTimeout
   \<and> stopInvoked (lateLoginEvents 0) = Some True
   \<and> manualWait launchedState lateLoginEvents 0 = (None, launchedState)
   \<and> isRunning (fst (startMonitoring initial None None None lateLoginStart))"
proof -
  have "page launchedState \<noteq> None" by (simp add: launchedState_def)
  moreover have "\<forall>n. stopInvoked (failedStopEvents n) \<noteq> Some False"
    by (simp add: failedStopEvents_def)
  moreover have "\<forall>n st. \<not> checkIfLoggedIn st (authDuringWait (failedStopEvents n))"
    by (simp add: failedStopEvents_def loggedOut_never)
  ultimately have out: "fst (manualWait launchedState failedStopEvents 0) = Some manualTimeout"
    by (rule manualWait_runs_out)
  have v: "launch lateLoginStart = None" "newPage lateLoginStart = None"
    "gotoMain lateLoginStart = None" "authInitial lateLoginStart = loggedOut"
    "waitEvents lateLoginStart = lateLoginEvents" "navigation lateLoginStart = idleNavigation"
    by (simp_all add: lateLoginStart_def noFormStart_def)
  have l: "initial\<lparr>browser := Some (launched initial), page := Some (launched initial),
                  openBrowsers := insert (launched initial) (openBrowsers initial),
                  launched := Suc (launched initial)\<rparr> = launchedState"
    by (simp add: launchedState_def initial_def)
  have b: "isRunning (fst (beginMonitoring launchedState lateLoginStart))"
    using page_launched v(6) by (rule beginMonitoring_running)
  have m: "manualLogin launchedState lateLoginStart = beginMonitoring launchedState lateLoginStart"
    using manualWait_lateLogin by (simp add: manualLogin_def v loggedOut_never)
  have r: "\<not> isRunning initial" by (simp add: initial_def)
  have s: "startMonitoring initial None None None lateLoginStart = manualLogin launchedState lateLoginStart"
    using r by (simp add: startMonitoring_def credentials_def l v)
  show ?thesis
    using out manualWait_lateLogin b
    by (simp add: s m) (simp add: failedStopEvents_def lateLoginEvents_def)
qed

theorem manual_wait_cancellation_witness:
  "page launchedState \<noteq> None \<and> browser launchedState \<noteq> None \<and> (0::nat) < 300
   \<and> stopInvoked ((\<lambda>turn. \<lparr>stopInvoked = Some False, authDuringWait = loggedOut\<rparr>) (0 div 5)) = Some False
   \<and> manualWait launchedState (\<lambda>turn. \<lparr>stopInvoked = Some False, authDuringWait = loggedOut\<rparr>) 0 =
       (Some nullPageError, initial\<lparr>launched := 1\<rparr>)
   \<and> \<not> checkIfLoggedIn launchedState (authInitial noFormStart)
   \<and> manualLogin launchedState (noFormStart\<lparr>waitEvents := (\<lambda>turn. \<lparr>stopInvoked = Some False, authDuringWait = loggedOut\<rparr>)\<rparr>) =
       (initial\<lparr>launched := 1\<rparr>, Some \<lparr>requiresSms = False, error = Some nullPageError\<rparr>)
   \<and> (\<forall>n. stopInvoked (failedStopEvents n) \<noteq> Some False)
   \<and> (\<forall>n st. \<not> checkIfLoggedIn st (authDuringWait (failedStopEvents n)))
   \<and> fst (manualWait launchedState failedStopEvents 0) = Some manualTimeout"
proof -
  have stop: "stopMonitoring launchedState False = initial\<lparr>launched := 1\<rparr>"
    by (simp add: stopMonitoring_def cleanup_def launchedState_def initial_def)
  have a: "\<forall>n. stopInvoked (failedStopEvents n) \<noteq> Some False"
    by (simp add: failedStopEvents_def)
  have b: "\<forall>n st. \<not> checkIfLoggedIn st (authDuringWait (failedStopEvents n))"
    by (simp add: failedStopEvents_def loggedOut_never)
  have c: "page launchedState \<noteq> None \<and> browser launchedState \<noteq> None"
    by (simp add: launchedState_def)
  have d: "\<not> checkIfLoggedIn launchedState (authInitial noFormStart)"
    by (simp add: noFormStart_def loggedOut_never)
  show ?thesis
    using manual_wait_cancellation [of launchedState 0
        "\<lambda>turn. \<lparr>stopInvoked = Some False, authDuringWait = loggedOut\<rparr>"
        "noFormStart\<lparr>waitEvents := (\<lambda>turn. \<lparr>stopInvoked = Some False, authDuringWait = loggedOut\<rparr>)\<rparr>"]
      manual_wait_cancellation [of launchedState 0 failedStopEvents noFormStart]
      a b c d stop
    by (simp add: noFormStart_def)
qed


text \<open>
  The failure path beside the one of C2: a start without credentials that times out
  goes through the outer \<open>catch\<close>, and the browser is closed and released.
\<close>

lemma manualWait_quiet:
  assumes "page s \<noteq> None"
    and "\<forall>n. stopInvoked (events n) = None"
    and "\<forall>n st. \<not> checkIfLoggedIn st (authDuringWait (events n))"
  shows "manualWait s events waitedTime = (Some manualTimeout, s)"
  using assms
proof (induction s events waitedTime rule: manualWait.induct)
  case (1 s events waitedTime)
  show ?case
  proof (cases "waitedTime < 300")
    case False
    then show ?thesis by (simp add: manualWait.simps)
  next
    case True
    have same: "(case stopInvoked (events (waitedTime div 5)) of None \<Rightarrow> s
                 | Some closeThrows \<Rightarrow> stopMonitoring s closeThrows) = s"
      using "1.prems"(2) by simp
    have no: "\<not> checkIfLoggedIn s (authDuringWait (events (waitedTime div 5)))"
      using "1.prems"(3) by simp
    have "manualWait s events waitedTime = manualWait s events (waitedTime + 5)"
      using True "1.prems"(1) no same by (subst manualWait.simps) auto
    then show ?thesis
      using "1.IH" [OF True "1.prems"(1)] no same "1.prems" by simp
  qed
qed

lemma truthy_manualTimeout: "truthy manualTimeout"
  by (simp add: truthy_def manualTimeout_def)

lemma noFormStart_simps:
  "launch noFormStart = None" "newPage noFormStart = None" "gotoMain noFormStart = None"
  "authInitial noFormStart = loggedOut" "cleanupCloseThrows noFormStart = False"
  "waitEvents noFormStart = (\<lambda>turn. \<lparr>stopInvoked = None, authDuringWait = loggedOut\<rparr>)"
  by (simp_all add: noFormStart_def)

lemma manual_timeout_tears_down:
  "startMonitoring initial None None None noFormStart =
     (initial\<lparr>launched := 1\<rparr>, Some \<lparr>requiresSms = False, error = Some manualTimeout\<rparr>)"
proof -
  have l: "initial\<lparr>browser := Some (launched initial), page := Some (launched initial),
                  openBrowsers := insert (launched initial) (openBrowsers initial),
                  launched := Suc (launched initial)\<rparr> = launchedState"
    by (simp add: launchedState_def initial_def)
  have w: "manualWait launchedState (waitEvents noFormStart) 0 = (Some manualTimeout, launchedState)"
    by (rule manualWait_quiet) (simp_all add: launchedState_def noFormStart_simps loggedOut_never)
  have c: "cleanup launchedState False = initial\<lparr>launched := 1\<rparr>"
    by (simp add: cleanup_def launchedState_def initial_def)
  have m: "manualLogin launchedState noFormStart =
      (initial\<lparr>launched := 1\<rparr>, Some \<lparr>requiresSms = False, error = Some manualTimeout\<rparr>)"
    using w truthy_manualTimeout
    by (simp add: manualLogin_def noFormStart_simps(4,5) loggedOut_never startCatch_def messageOr_def c)
  have r: "\<not> isRunning initial" by (simp add: initial_def)
  show ?thesis
    using r by (simp add: startMonitoring_def credentials_def noFormStart_simps(1,2,3) l m)
qed

section \<open>The credential login\<close>

lemma submitOrEnter_quiet:
  "filter changesInputType (submitOrEnter b t) = []" "filter (typesInto x) (submitOrEnter b t) = []"
  by (simp_all add: submitOrEnter_def changesInputType_def typesInto_def split: button.splits)

lemma codeEntry_quiet: "filter changesInputType (snd (codeEntry s c v)) = []"
  by (simp add: codeEntry_def changesInputType_def submitOrEnter_quiet split: option.splits)

lemma loginSteps_form:
  assumes "gotoLogin v = None \<or> gotoLoginRetry v = None"
  shows "\<exists>done. loginSteps s phone password smsCode v = loginForm s phone password smsCode v done
              \<and> filter changesInputType done = [] \<and> filter (typesInto x) done = []"
  using assms
  by (auto simp: loginSteps_def changesInputType_def typesInto_def split: option.splits)

lemma login_trace:
  assumes "page s \<noteq> None"
    and "gotoLogin v = None \<or> gotoLoginRetry v = None"
    and "\<not> isAuthenticatedUrl (urlAfterGoto v)"
    and "firstVisible (phoneProbes v) phoneSelectors None = Some phoneInput"
    and "firstVisible (passwordProbes v) passwordSelectors None = Some passwordInput"
  shows "\<exists>done. filter changesInputType done = [] \<and> filter (typesInto codeSelector) done = []
      \<and> login s phone password smsCode v =
         (Inr (Some (case fst (codeEntry s smsCode v) of Some r \<Rightarrow> r | None \<Rightarrow> loginFinish s smsCode v)),
          done @ [Click (Element phoneInput) 3, TypeText (Element phoneInput) (normalizedPhone phone)]
               @ submitOrEnter (nextButton v) (Element phoneInput)
               @ [Click (Element passwordInput) 3, TypeText (Element passwordInput) password,
                  SetInputType (Element passwordInput) (ascii ''text'')]
               @ submitOrEnter (submitButton v) (Element passwordInput)
               @ snd (codeEntry s smsCode v))"
proof -
  obtain "done" where d: "loginSteps s phone password smsCode v = loginForm s phone password smsCode v done"
    "filter changesInputType done = []" "filter (typesInto codeSelector) done = []"
    using loginSteps_form [OF assms(2)] by blast
  show ?thesis
    using assms(1,3,4,5) d by (intro exI [of _ "done"]) (simp add: login_def loginForm_def)
qed

text \<open>
  C10. In every login that finds the identifier input and the secret input, the action
  that follows the typing of the secret into the secret input sets that input's
  \<open>type\<close> attribute to \<open>text\<close>, and no other action of the login changes the type
  of any input: the attribute is never set back, so the typed secret stays readable in
  the page for the rest of the attempt.
\<close>

theorem secret_input_made_visible:
  assumes "page s \<noteq> None"
    and "gotoLogin v = None \<or> gotoLoginRetry v = None"
    and "\<not> isAuthenticatedUrl (urlAfterGoto v)"
    and "firstVisible (phoneProbes v) phoneSelectors None = Some phoneInput"
    and "firstVisible (passwordProbes v) passwordSelectors None = Some passwordInput"
  shows "\<exists>before after.
           snd (login s phone password smsCode v) =
             before @ [TypeText (Element passwordInput) password,
                       SetInputType (Element passwordInput) (ascii ''text'')] @ after
           \<and> filter changesInputType (before @ after) = []"
proof -
  obtain "done" where d: "filter changesInputType done = []"
    "snd (login s phone password smsCode v) =
          done @ [Click (Element phoneInput) 3, TypeText (Element phoneInput) (normalizedPhone phone)]
               @ submitOrEnter (nextButton v) (Element phoneInput)
               @ [Click (Element passwordInput) 3, TypeText (Element passwordInput) password,
                  SetInputType (Element passwordInput) (ascii ''text'')]
               @ submitOrEnter (submitButton v) (Element passwordInput)
               @ snd (codeEntry s smsCode v)"
    using login_trace [OF assms, of phone password smsCode] by auto
  let ?before = "done @ [Click (Element phoneInput) 3, TypeText (Element phoneInput) (normalizedPhone phone)]
               @ submitOrEnter (nextButton v) (Element phoneInput) @ [Click (Element passwordInput) 3]"
  let ?after = "submitOrEnter (submitButton v) (Element passwordInput) @ snd (codeEntry s smsCode v)"
  have "snd (login s phone password smsCode v) =
      ?before @ [TypeText (Element passwordInput) password,
                 SetInputType (Element passwordInput) (ascii ''text'')] @ ?after"
    using d(2) by simp
  moreover have "filter changesInputType (?before @ ?after) = []"
    using d(1) by (simp add: submitOrEnter_quiet codeEntry_quiet) (simp add: changesInputType_def)
  ultimately show ?thesis by blast
qed

lemma codeInput_flagged: "isSmsField codeInput" "isCodeField codeInput"
  by (simp_all add: isSmsField_def isCodeField_def codeInput_def ascii_def)

lemma codeLoginView_inputs:
  \<open>firstVisible (phoneProbes codeLoginView) phoneSelectors None = Some (ascii ''input[name="login"]'')\<close>
  \<open>firstVisible (passwordProbes codeLoginView) passwordSelectors None = Some (ascii ''input[type="password"]'')\<close>
  by (simp_all add: codeLoginView_def emptyLoginView_def phoneSelectors_def passwordSelectors_def ascii_def)

lemma codeLoginView_reaches:
  "page launchedState \<noteq> None"
  "gotoLogin codeLoginView = None \<or> gotoLoginRetry codeLoginView = None"
  "\<not> isAuthenticatedUrl (urlAfterGoto codeLoginView)"
  by (simp_all add: launchedState_def initial_def codeLoginView_def emptyLoginView_def
      isAuthenticatedUrl_def ascii_def)

theorem secret_input_made_visible_witness:
  \<open>page launchedState \<noteq> None
   \<and> (gotoLogin codeLoginView = None \<or> gotoLoginRetry codeLoginView = None)
   \<and> \<not> isAuthenticatedUrl (urlAfterGoto codeLoginView)
   \<and> firstVisible (phoneProbes codeLoginView) phoneSelectors None = Some (ascii ''input[name="login"]'')
   \<and> firstVisible (passwordProbes codeLoginView) passwordSelectors None
       = Some (ascii ''input[type="password"]'')
   \<and> (\<exists>before after.
         snd (login launchedState somePhone somePassword None codeLoginView) =
           before @ [TypeText (Element (ascii ''input[type="password"]'')) somePassword,
                     SetInputType (Element (ascii ''input[type="password"]'')) (ascii ''text'')] @ after
         \<and> filter changesInputType (before @ after) = [])\<close>
  using secret_input_made_visible [OF codeLoginView_reaches codeLoginView_inputs, of somePhone somePassword None]
    codeLoginView_reaches codeLoginView_inputs
  by simp

lemma login_codeLoginView:
  \<open>login launchedState somePhone somePassword (Some (ascii ''1234'')) codeLoginView =
     (Inr (Some \<lparr>requiresSms = True, error = Some invalidSmsCode\<rparr>),
      [Goto loginUrl,
       Click (Element (ascii ''input[name="login"]'')) 3,
       TypeText (Element (ascii ''input[name="login"]'')) (ascii ''+79123456789''),
       PressEnter (Element (ascii ''input[name="login"]'')),
       Click (Element (ascii ''input[type="password"]'')) 3,
       TypeText (Element (ascii ''input[type="password"]'')) (ascii ''secret''),
       SetInputType (Element (ascii ''input[type="password"]'')) (ascii ''text''),
       PressEnter (Element (ascii ''input[type="password"]'')),
       Click (Element codeSelector) 3,
       TypeText (Element codeSelector) (ascii ''1234''),
       PressEnter (Element codeSelector)])\<close>
proof -
  have n: "normalizedPhone somePhone = ascii ''+79123456789''"
    by (simp add: normalizedPhone_def somePhone_def ascii_def isSpace_def)
  have c: "codeEntry launchedState (Some (ascii ''1234'')) codeLoginView =
      (Some \<lparr>requiresSms = True, error = Some invalidSmsCode\<rparr>,
       [Click (Element codeSelector) 3, TypeText (Element codeSelector) (ascii ''1234''),
        PressEnter (Element codeSelector)])"
    using codeInput_flagged loggedOut_never
    by (simp add: codeEntry_def stillRequiresCode_def codeLoginView_def emptyLoginView_def
        errorText_def given_def truthy_def ascii_def submitOrEnter_def)
  have v: "gotoLogin codeLoginView = None" "nextButton codeLoginView = NoButton"
    "submitButton codeLoginView = NoButton"
    by (simp_all add: codeLoginView_def emptyLoginView_def)
  show ?thesis
    using codeLoginView_reaches(1,3) codeLoginView_inputs
    by (simp add: login_def loginSteps_def loginForm_def c n v submitOrEnter_def somePassword_def)
qed

lemma capitalCodeInput_tests: "isSmsField capitalCodeInput" "\<not> isCodeField capitalCodeInput"
  by (simp_all add: isSmsField_def isCodeField_def capitalCodeInput_def ascii_def)

lemma lowerCodeInput_tests: "isSmsField lowerCodeInput" "isCodeField lowerCodeInput"
  by (simp_all add: isSmsField_def isCodeField_def lowerCodeInput_def ascii_def)

lemma normalizedPhone_somePhone: "normalizedPhone somePhone = ascii ''+79123456789''"
  by (simp add: normalizedPhone_def somePhone_def ascii_def isSpace_def)

lemma capitalCodeView_simps:
  "gotoLogin capitalCodeView = None" "nextButton capitalCodeView = NoButton"
  "submitButton capitalCodeView = NoButton" "confirmButton capitalCodeView = NoButton"
  "codeFirst capitalCodeView = Some capitalCodeInput" "codeStill capitalCodeView = Some capitalCodeInput"
  "codeCheck capitalCodeView = Some capitalCodeInput"
  "errorsAfterCode capitalCodeView = []" "errorsAfterSubmit capitalCodeView = []"
  "errorsFinal capitalCodeView = []"
  "authAfterCode capitalCodeView = loggedOut" "authAfterSubmit capitalCodeView = loggedOut"
  "authRetry capitalCodeView = loggedOut"
  "urlAfterGoto capitalCodeView = urlAfterGoto codeLoginView"
  "phoneProbes capitalCodeView = phoneProbes codeLoginView"
  "passwordProbes capitalCodeView = passwordProbes codeLoginView"
  by (simp_all add: capitalCodeView_def codeLoginView_def emptyLoginView_def)

lemma lowerCodeView_simps:
  "gotoLogin lowerCodeView = None" "nextButton lowerCodeView = NoButton"
  "submitButton lowerCodeView = NoButton" "confirmButton lowerCodeView = NoButton"
  "codeFirst lowerCodeView = Some lowerCodeInput" "codeStill lowerCodeView = Some lowerCodeInput"
  "errorsAfterCode lowerCodeView = []" "authAfterCode lowerCodeView = loggedOut"
  "urlAfterGoto lowerCodeView = urlAfterGoto codeLoginView"
  "phoneProbes lowerCodeView = phoneProbes codeLoginView"
  "passwordProbes lowerCodeView = passwordProbes codeLoginView"
  by (simp_all add: lowerCodeView_def codeLoginView_def emptyLoginView_def)

lemma login_capitalCodeView:
  \<open>login launchedState somePhone somePassword (Some (ascii ''1234'')) capitalCodeView =
     (Inr (Some \<lparr>requiresSms = False, error = Some loginFailed\<rparr>),
      [Goto loginUrl,
       Click (Element (ascii ''input[name="login"]'')) 3,
       TypeText (Element (ascii ''input[name="login"]'')) (ascii ''+79123456789''),
       PressEnter (Element (ascii ''input[name="login"]'')),
       Click (Element (ascii ''input[type="password"]'')) 3,
       TypeText (Element (ascii ''input[type="password"]'')) (ascii ''secret''),
       SetInputType (Element (ascii ''input[type="password"]'')) (ascii ''text''),
       PressEnter (Element (ascii ''input[type="password"]'')),
       Click (Element codeSelector) 3,
       TypeText (Element codeSelector) (ascii ''1234''),
       PressEnter (Element codeSelector)])\<close>
proof -
  note v = capitalCodeView_simps
  have c: "codeEntry launchedState (Some (ascii ''1234'')) capitalCodeView =
      (None,
       [Click (Element codeSelector) 3, TypeText (Element codeSelector) (ascii ''1234''),
        PressEnter (Element codeSelector)])"
    using capitalCodeInput_tests loggedOut_never
    by (simp add: codeEntry_def stillRequiresCode_def v errorText_def given_def truthy_def ascii_def
        submitOrEnter_def)
  have f: "loginFinish launchedState (Some (ascii ''1234'')) capitalCodeView
             = \<lparr>requiresSms = False, error = Some loginFailed\<rparr>"
    using capitalCodeInput_tests loggedOut_never
    by (simp add: loginFinish_def codeRequested_def v errorText_def given_def)
  show ?thesis
    using codeLoginView_reaches(1,3) codeLoginView_inputs
    by (simp add: login_def loginSteps_def loginForm_def c f v normalizedPhone_somePhone
        submitOrEnter_def somePassword_def)
qed

lemma login_lowerCodeView:
  "fst (login launchedState somePhone somePassword (Some (ascii ''1234'')) lowerCodeView)
     = Inr (Some \<lparr>requiresSms = True, error = Some invalidSmsCode\<rparr>)"
proof -
  note v = lowerCodeView_simps
  have c: "fst (codeEntry launchedState (Some (ascii ''1234'')) lowerCodeView)
             = Some \<lparr>requiresSms = True, error = Some invalidSmsCode\<rparr>"
    using lowerCodeInput_tests loggedOut_never
    by (simp add: codeEntry_def stillRequiresCode_def v errorText_def given_def truthy_def ascii_def)
  show ?thesis
    using codeLoginView_reaches(1,3) codeLoginView_inputs
    by (simp add: login_def loginSteps_def loginForm_def c v split: prod.splits)
qed

lemma start_capitalCodeStart:
  "startMonitoring initial (Some somePhone) (Some somePassword) (Some (ascii ''1234'')) capitalCodeStart
     = (launchedState, Some \<lparr>requiresSms = False, error = Some loginFailed\<rparr>)"
proof -
  have l: "initial\<lparr>browser := Some (launched initial), page := Some (launched initial),
                   openBrowsers := insert (launched initial) (openBrowsers initial),
                   launched := Suc (launched initial)\<rparr> = launchedState"
    by (simp add: launchedState_def initial_def)
  have t: "truthy somePhone" "truthy somePassword" "given (Some loginFailed)"
    by (simp_all add: truthy_def given_def somePhone_def somePassword_def loginFailed_def ascii_def)
  have v: "launch capitalCodeStart = None" "newPage capitalCodeStart = None"
    "gotoMain capitalCodeStart = None" "loginView capitalCodeStart = capitalCodeView"
    by (simp_all add: capitalCodeStart_def noFormStart_def)
  have n: "\<not> isRunning initial" by (simp add: initial_def)
  show ?thesis
    using n t by (simp add: startMonitoring_def credentials_def l v automaticLogin_def login_capitalCodeView)
qed

text \<open>
  C8. A supplied one-time code that is typed and submitted, after which the code input
  is still on the page and still flagged as a code field, is to end the login as
  failed with the "wrong SMS code" message. The login does so when the flag is one of
  the four that its checks after the submission look for (a placeholder that contains
  the Russian word for "code" in lower case, as in \<open>lowerCodeView\<close>). The test that
  makes it type the code, \<open>isSmsField\<close>, accepts three more, among them the capitalised
  word, which the selectors of those checks ask for as well. For such an input
  (\<open>capitalCodeView\<close>) the code is typed once and submitted, the checks after the
  submission find the input and do not recognise it, and the login ends with
  \<open>requiresSms = false\<close> and the general "login failed" message, which is what the
  caller of \<open>POST start\<close> is given.
\<close>

theorem capitalised_code_field_unrecognised:
  \<open>isSmsField capitalCodeInput
   \<and> codeFirst capitalCodeView = Some capitalCodeInput
   \<and> codeStill capitalCodeView = Some capitalCodeInput
   \<and> codeCheck capitalCodeView = Some capitalCodeInput
   \<and> login launchedState somePhone somePassword (Some (ascii ''1234'')) capitalCodeView =
       (Inr (Some \<lparr>requiresSms = False, error = Some loginFailed\<rparr>),
        [Goto loginUrl,
         Click (Element (ascii ''input[name="login"]'')) 3,
         TypeText (Element (ascii ''input[name="login"]'')) (ascii ''+79123456789''),
         PressEnter (Element (ascii ''input[name="login"]'')),
         Click (Element (ascii ''input[type="password"]'')) 3,
         TypeText (Element (ascii ''input[type="password"]'')) (ascii ''secret''),
         SetInputType (Element (ascii ''input[type="password"]'')) (ascii ''text''),
         PressEnter (Element (ascii ''input[type="password"]'')),
         Click (Element codeSelector) 3,
         TypeText (Element codeSelector) (ascii ''1234''),
         PressEnter (Element codeSelector)])
   \<and> snd (AppController_startMonitoring initial (Some somePhone) (Some somePassword)
             (Some (ascii ''1234'')) capitalCodeStart)
       = \<lparr>success = False, error_response = Some loginFailed,
          requiresSms_response = Some False, message_response = None\<rparr>
   \<and> fst (login launchedState somePhone somePassword (Some (ascii ''1234'')) lowerCodeView)
       = Inr (Some \<lparr>requiresSms = True, error = Some invalidSmsCode\<rparr>)\<close>
proof -
  have g: "given (Some loginFailed)"
    by (simp add: truthy_def given_def loginFailed_def)
  show ?thesis
    using g
    by (simp add: capitalCodeInput_tests capitalCodeView_simps login_capitalCodeView
        login_lowerCodeView AppController_startMonitoring_def start_capitalCodeStart)
qed

end
